theory Spec2Isabelle
  imports Main
begin

section \<open>Values, rows and exceptions\<close>

text \<open>
  The program is \<^verbatim>\<open>db_setup.py\<close>: a script that connects to a PostgreSQL server,
  optionally drops the schema, creates enumerated types, tables and indexes, inserts
  seed rows and prints row counts. The Python is embedded with explicit state passing:
  a step takes the state and returns a result (a value or a raised exception) with the
  new state. The server is part of the state: a catalogue of types, tables and indexes,
  and the SQL texts the script sends are values of a datatype of statements.
\<close>

datatype val = VStr string | VInt int | VBool bool | VNull | VExpr string

type_synonym row = "(string \<times> val) list"

text \<open>
  The error classes of the database driver (\<^verbatim>\<open>psycopg2.Error\<close> and its subclasses), by
  the condition the server reports.
\<close>

datatype dberror =
    SyntaxError
  | DuplicateObject
  | DuplicateTable
  | UndefinedObject
  | UndefinedTable
  | UndefinedColumn
  | NotNullViolation
  | InvalidTextRepresentation
  | UniqueViolation
  | ForeignKeyViolation
  | WrongObjectType
  | DependentObjectsStillExist
  | InterfaceError

text \<open>
  The exceptions of the Python run, each with the text \<^verbatim>\<open>str(e)\<close> gives where it has
  one of its own. \<open>SystemExit\<close> is what \<^verbatim>\<open>sys.exit(n)\<close> raises; it derives from
  \<^verbatim>\<open>BaseException\<close> only, so \<^verbatim>\<open>except Exception\<close> does not catch it.
\<close>

datatype exn =
    Psycopg2Error dberror string
  | AttributeError string
  | KeyError string
  | TypeError
  | ValueError string
  | EOFError
  | SystemExit nat

fun is_Exception :: "exn \<Rightarrow> bool" where
  "is_Exception (SystemExit n) = False"
| "is_Exception e = True"

datatype 'a res = Ret 'a | Raise exn

section \<open>The database server\<close>

datatype coltype =
    TUuid | TText | TInteger | TBoolean | TTimestamp | TJsonb | TDate | TTime
  | TEnum string

text \<open>
  A column definition of a \<^verbatim>\<open>CREATE TABLE\<close>: its name, its type, \<^verbatim>\<open>NOT NULL\<close>,
  \<^verbatim>\<open>PRIMARY KEY\<close> or \<^verbatim>\<open>UNIQUE\<close>, the table of a \<^verbatim>\<open>REFERENCES t(id)\<close> and the text
  of a \<^verbatim>\<open>DEFAULT\<close>. A primary key is also not null.
\<close>

record column =
  cname :: string
  ctype :: coltype
  cnotnull :: bool
  cunique :: bool
  cref :: "string option"
  cdefault :: "string option"

record table =
  tcols :: "column list"
  trows :: "row list"

text \<open>
  The statements the script sends. \<open>DropTable t\<close> is \<^verbatim>\<open>DROP TABLE IF EXISTS t CASCADE\<close>,
  \<open>DropType e\<close> is \<^verbatim>\<open>DROP TYPE IF EXISTS e CASCADE\<close>, \<open>CreateType e ls\<close> is
  \<^verbatim>\<open>CREATE TYPE e AS ENUM (ls)\<close>, \<open>CreateIndex i t cs\<close> is \<^verbatim>\<open>CREATE INDEX i ON t(cs)\<close>,
  \<open>Insert t r\<close> is \<^verbatim>\<open>INSERT INTO t (columns of r) VALUES (values of r)\<close>,
  \<open>SelectCount t\<close> is \<^verbatim>\<open>SELECT COUNT(*) FROM t\<close> and \<open>SelectFormationCounts\<close> is the
  grouped query of \<^verbatim>\<open>verify_setup\<close>.
\<close>

datatype stmt =
    DropTable string
  | DropType string
  | CreateType string "string list"
  | CreateTable string "column list"
  | CreateIndex string string "string list"
  | Insert string row
  | SelectCount string
  | SelectFormationCounts

fun is_select :: "stmt \<Rightarrow> bool" where
  "is_select (SelectCount t) = True"
| "is_select SelectFormationCounts = True"
| "is_select st = False"

text \<open>
  The database of the server: its enumerated types with their labels, its tables, its
  indexes with the table each is on, and the text of the message the server sends when
  it rejects a statement for a reason. Other kinds of objects (views, sequences,
  composite types) are not part of the model.
\<close>

record database =
  types :: "string \<rightharpoonup> string list"
  tables :: "string \<rightharpoonup> table"
  indexes :: "string \<rightharpoonup> string"
  wording :: "stmt \<Rightarrow> dberror \<Rightarrow> string"

text \<open>
  The reserved key words of PostgreSQL: none of them can name a column unless it is
  written in double quotes, and the script quotes no identifier.
\<close>

definition reserved_words :: "string list" where
  "reserved_words =
    [''all'', ''analyse'', ''analyze'', ''and'', ''any'', ''array'', ''as'', ''asc'',
     ''asymmetric'', ''both'', ''case'', ''cast'', ''check'', ''collate'', ''column'',
     ''constraint'', ''create'', ''current_catalog'', ''current_date'', ''current_role'',
     ''current_time'', ''current_timestamp'', ''current_user'', ''default'',
     ''deferrable'', ''desc'', ''distinct'', ''do'', ''else'', ''end'', ''except'',
     ''false'', ''fetch'', ''for'', ''foreign'', ''from'', ''grant'', ''group'',
     ''having'', ''in'', ''initially'', ''intersect'', ''into'', ''lateral'', ''leading'',
     ''limit'', ''localtime'', ''localtimestamp'', ''not'', ''null'', ''offset'', ''on'',
     ''only'', ''or'', ''order'', ''placing'', ''primary'', ''references'', ''returning'',
     ''select'', ''session_user'', ''some'', ''symmetric'', ''table'', ''then'', ''to'',
     ''trailing'', ''true'', ''union'', ''unique'', ''user'', ''using'', ''variadic'',
     ''when'', ''where'', ''window'', ''with'']"

definition enum_known :: "database \<Rightarrow> coltype \<Rightarrow> bool" where
  "enum_known d ty = (case ty of TEnum e \<Rightarrow> e \<in> dom (types d) | _ \<Rightarrow> True)"

text \<open>
  What the server reports for a name that is no table: the name of an index is a
  relation of the wrong kind, any other name is unknown.
\<close>

definition no_table :: "database \<Rightarrow> string \<Rightarrow> dberror" where
  "no_table d t = (if t \<in> dom (indexes d) then WrongObjectType else UndefinedTable)"

text \<open>
  \<^verbatim>\<open>DROP TABLE IF EXISTS t CASCADE\<close> removes the table, its indexes and the foreign keys
  of other tables that point to it; \<^verbatim>\<open>DROP TYPE IF EXISTS e CASCADE\<close> removes the type
  and the columns of that type, with their values. A name that is not there is passed
  over. Two cases are errors all the same (\<open>exec\<close> below): \<^verbatim>\<open>DROP TABLE\<close> of a name that
  is an index, not a table; and \<^verbatim>\<open>DROP TYPE\<close> of a name that is a table, whose row type
  carries the name and cannot be dropped without the table.
\<close>

definition unref :: "string \<Rightarrow> table \<Rightarrow> table" where
  "unref t tb =
     tb\<lparr>tcols := map (\<lambda>c. if cref c = Some t then c\<lparr>cref := None\<rparr> else c) (tcols tb)\<rparr>"

definition drop_table :: "string \<Rightarrow> database \<Rightarrow> database" where
  "drop_table t d =
     d\<lparr>tables := (\<lambda>n. if n = t then None else map_option (unref t) (tables d n)),
        indexes := (\<lambda>i. if indexes d i = Some t then None else indexes d i)\<rparr>"

definition uncolumn :: "string \<Rightarrow> table \<Rightarrow> table" where
  "uncolumn e tb =
     (let gone = map cname (filter (\<lambda>c. ctype c = TEnum e) (tcols tb))
      in \<lparr>tcols = filter (\<lambda>c. ctype c \<noteq> TEnum e) (tcols tb),
          trows = map (filter (\<lambda>kv. fst kv \<notin> set gone)) (trows tb)\<rparr>)"

definition drop_type :: "string \<Rightarrow> database \<Rightarrow> database" where
  "drop_type e d =
     d\<lparr>types := (types d)(e := None),
        tables := (\<lambda>n. map_option (uncolumn e) (tables d n))\<rparr>"

text \<open>
  \<^verbatim>\<open>CREATE TABLE\<close>: the text is parsed first (a reserved word as a column name is a
  syntax error); a relation of that name must not exist, nor a type (the row type of the
  table takes the name); every enumerated column type and every referenced table must
  exist. The new table has no rows.
\<close>

definition ref_errors :: "database \<Rightarrow> column list \<Rightarrow> dberror list" where
  "ref_errors d cols =
     concat (map (\<lambda>c. case cref c of
                         None \<Rightarrow> []
                       | Some p \<Rightarrow> (if p \<in> dom (tables d) then [] else [no_table d p])) cols)"

definition create_table :: "string \<Rightarrow> column list \<Rightarrow> database \<Rightarrow> dberror + database" where
  "create_table t cols d =
     (if \<exists>c \<in> set cols. cname c \<in> set reserved_words then Inl SyntaxError
      else if t \<in> dom (tables d) \<or> t \<in> dom (indexes d) then Inl DuplicateTable
      else if t \<in> dom (types d) then Inl DuplicateObject
      else if \<exists>c \<in> set cols. \<not> enum_known d (ctype c) then Inl UndefinedObject
      else if ref_errors d cols \<noteq> [] then Inl (hd (ref_errors d cols))
      else Inr (d\<lparr>tables := (tables d)(t \<mapsto> \<lparr>tcols = cols, trows = []\<rparr>)\<rparr>))"

definition create_type :: "string \<Rightarrow> string list \<Rightarrow> database \<Rightarrow> dberror + database" where
  "create_type e ls d =
     (if e \<in> dom (types d) \<or> e \<in> dom (tables d) then Inl DuplicateObject
      else Inr (d\<lparr>types := (types d)(e \<mapsto> ls)\<rparr>))"

definition create_index ::
  "string \<Rightarrow> string \<Rightarrow> string list \<Rightarrow> database \<Rightarrow> dberror + database" where
  "create_index i t cs d =
     (case tables d t of
        None \<Rightarrow> Inl (no_table d t)
      | Some tb \<Rightarrow>
          if \<exists>c \<in> set cs. c \<notin> set (map cname (tcols tb)) then Inl UndefinedColumn
          else if i \<in> dom (indexes d) \<or> i \<in> dom (tables d) then Inl DuplicateTable
          else Inr (d\<lparr>indexes := (indexes d)(i \<mapsto> t)\<rparr>))"

text \<open>
  \<^verbatim>\<open>INSERT\<close>: the table and the named columns must exist; a \<^verbatim>\<open>NOT NULL\<close> column with
  no default must get a value; a value of an enumerated column must be a label of the
  type; a value of a unique column must be new; a value of a referencing column must be
  an \<^verbatim>\<open>id\<close> of the referenced table. The row is stored as it was sent: defaults are
  not filled in.
\<close>

definition given :: "row \<Rightarrow> string \<Rightarrow> val option" where
  "given r c = (case map_of r c of Some VNull \<Rightarrow> None | x \<Rightarrow> x)"

definition label_ok :: "database \<Rightarrow> coltype \<Rightarrow> val option \<Rightarrow> bool" where
  "label_ok d ty v =
     (case (ty, v) of
        (TEnum e, Some (VStr l)) \<Rightarrow> (case types d e of None \<Rightarrow> False | Some ls \<Rightarrow> l \<in> set ls)
      | (TEnum e, Some x) \<Rightarrow> False
      | _ \<Rightarrow> True)"

definition column_vals :: "table \<Rightarrow> string \<Rightarrow> val list" where
  "column_vals tb c = List.map_filter (\<lambda>r. given r c) (trows tb)"

definition fk_ok :: "database \<Rightarrow> string option \<Rightarrow> val option \<Rightarrow> bool" where
  "fk_ok d r v =
     (case (r, v) of
        (Some p, Some x) \<Rightarrow>
          (case tables d p of None \<Rightarrow> False | Some tb \<Rightarrow> x \<in> set (column_vals tb ''id''))
      | _ \<Rightarrow> True)"

definition insert_row :: "string \<Rightarrow> row \<Rightarrow> database \<Rightarrow> dberror + database" where
  "insert_row t r d =
     (case tables d t of
        None \<Rightarrow> Inl (no_table d t)
      | Some tb \<Rightarrow>
          if \<exists>k \<in> set (map fst r). k \<notin> set (map cname (tcols tb)) then Inl UndefinedColumn
          else if \<exists>c \<in> set (tcols tb). cnotnull c \<and> cdefault c = None \<and> given r (cname c) = None
            then Inl NotNullViolation
          else if \<exists>c \<in> set (tcols tb). \<not> label_ok d (ctype c) (given r (cname c))
            then Inl InvalidTextRepresentation
          else if \<exists>c \<in> set (tcols tb). cunique c \<and>
                 (case given r (cname c) of None \<Rightarrow> False
                  | Some x \<Rightarrow> x \<in> set (column_vals tb (cname c)))
            then Inl UniqueViolation
          else if \<exists>c \<in> set (tcols tb). \<not> fk_ok d (cref c) (given r (cname c))
            then Inl ForeignKeyViolation
          else Inr (d\<lparr>tables := (tables d)(t \<mapsto> tb\<lparr>trows := trows tb @ [r]\<rparr>)\<rparr>))"

text \<open>
  The two queries. The count of a table is one row with the column \<^verbatim>\<open>count\<close>. The
  grouped query is
  \<^verbatim>\<open>SELECT category, COUNT(*) as count FROM progression_steps
  WHERE category IN ('2way', '3way', '4way') GROUP BY category ORDER BY category\<close>:
  one row for each of the three labels that some row of the table carries, in the order
  of the labels.
\<close>

definition select_count :: "string \<Rightarrow> database \<Rightarrow> dberror + row list" where
  "select_count t d =
     (case tables d t of
        None \<Rightarrow> Inl (no_table d t)
      | Some tb \<Rightarrow> Inr [[(''count'', VInt (int (length (trows tb))))]])"

definition category_count :: "table \<Rightarrow> string \<Rightarrow> nat" where
  "category_count tb c = length (filter (\<lambda>r. given r ''category'' = Some (VStr c)) (trows tb))"

definition select_formation_counts :: "database \<Rightarrow> dberror + row list" where
  "select_formation_counts d =
     (case tables d ''progression_steps'' of
        None \<Rightarrow> Inl (no_table d ''progression_steps'')
      | Some tb \<Rightarrow>
          if ''category'' \<notin> set (map cname (tcols tb)) then Inl UndefinedColumn
          else Inr (map (\<lambda>c. [(''category'', VStr c), (''count'', VInt (int (category_count tb c)))])
                 (filter (\<lambda>c. 0 < category_count tb c) [''2way'', ''3way'', ''4way''])))"

text \<open>One statement on the server: the new database and the rows of the answer.\<close>

fun exec :: "stmt \<Rightarrow> database \<Rightarrow> dberror + (database \<times> row list)" where
  "exec (DropTable t) d =
     (if tables d t = None \<and> t \<in> dom (indexes d) then Inl WrongObjectType
      else Inr (drop_table t d, []))"
| "exec (DropType e) d =
     (if types d e = None \<and> e \<in> dom (tables d) then Inl DependentObjectsStillExist
      else Inr (drop_type e d, []))"
| "exec (CreateType e ls) d = map_sum id (\<lambda>d'. (d', [])) (create_type e ls d)"
| "exec (CreateTable t cols) d = map_sum id (\<lambda>d'. (d', [])) (create_table t cols d)"
| "exec (CreateIndex i t cs) d = map_sum id (\<lambda>d'. (d', [])) (create_index i t cs d)"
| "exec (Insert t r) d = map_sum id (\<lambda>d'. (d', [])) (insert_row t r d)"
| "exec (SelectCount t) d = map_sum id (\<lambda>rs. (d, rs)) (select_count t d)"
| "exec SelectFormationCounts d = map_sum id (\<lambda>rs. (d, rs)) (select_formation_counts d)"

section \<open>Strings and numbers of the Python run\<close>

text \<open>
  Strings are lists of bytes; the symbols the script prints are their UTF-8 bytes.
\<close>

definition rocket :: string where
  "rocket = [CHR 0xF0, CHR 0x9F, CHR 0x9A, CHR 0x80]"

definition check_mark :: string where
  "check_mark = [CHR 0xE2, CHR 0x9C, CHR 0x93]"

definition warning_sign :: string where
  "warning_sign = [CHR 0xE2, CHR 0x9A, CHR 0xA0, CHR 0xEF, CHR 0xB8, CHR 0x8F]"

definition cross_mark :: string where
  "cross_mark = [CHR 0xE2, CHR 0x9D, CHR 0x8C]"

definition party_popper :: string where
  "party_popper = [CHR 0xF0, CHR 0x9F, CHR 0x8E, CHR 0x89]"

definition newline :: string where
  "newline = [CHR 0x0A]"

fun join :: "string \<Rightarrow> string list \<Rightarrow> string" where
  "join sep [] = []"
| "join sep [x] = x"
| "join sep (x # y # ys) = x @ sep @ join sep (y # ys)"

definition digit_char :: "nat \<Rightarrow> char" where
  "digit_char n = ''0123456789'' ! n"

function show_nat :: "nat \<Rightarrow> string" where
  "show_nat n = (if n < 10 then [digit_char n] else show_nat (n div 10) @ [digit_char (n mod 10)])"
  by pat_completeness auto
termination
  by (relation "measure id") auto

definition show_int :: "int \<Rightarrow> string" where
  "show_int i = (if i < 0 then CHR ''-'' # show_nat (nat (- i)) else show_nat (nat i))"

text \<open>
  \<^verbatim>\<open>str.lower()\<close> on the bytes of a string: the letters A to Z become a to z. A
  character outside ASCII never becomes one of the letters y, e, s, so the comparison
  with \<^verbatim>\<open>'yes'\<close> in \<^verbatim>\<open>main\<close> is the one of Python.
\<close>

definition lower_char :: "char \<Rightarrow> char" where
  "lower_char c =
     (case map_of (zip ''ABCDEFGHIJKLMNOPQRSTUVWXYZ'' ''abcdefghijklmnopqrstuvwxyz'') c of
        None \<Rightarrow> c
      | Some l \<Rightarrow> l)"

definition py_lower :: "string \<Rightarrow> string" where
  "py_lower s = map lower_char s"

definition show_val :: "val \<Rightarrow> string" where
  "show_val v =
     (case v of
        VStr t \<Rightarrow> t
      | VInt i \<Rightarrow> show_int i
      | VBool b \<Rightarrow> (if b then ''True'' else ''False'')
      | VNull \<Rightarrow> ''None''
      | VExpr t \<Rightarrow> t)"

text \<open>
  \<^verbatim>\<open>repr\<close> of a text without quotes, backslashes and control characters, as the keys
  the script uses are: the text in single quotes.
\<close>

definition py_repr :: "string \<Rightarrow> string" where
  "py_repr t = [CHR 0x27] @ t @ [CHR 0x27]"

definition no_attribute :: "string \<Rightarrow> string \<Rightarrow> string" where
  "no_attribute c a = py_repr c @ '' object has no attribute '' @ py_repr a"

definition no_module_attribute :: "string \<Rightarrow> string \<Rightarrow> string" where
  "no_module_attribute m a = ''module '' @ py_repr m @ '' has no attribute '' @ py_repr a"

text \<open>\<^verbatim>\<open>str(e)\<close> of an exception, as the failure line of \<^verbatim>\<open>run_setup\<close> shows it.\<close>

definition str_exn :: "exn \<Rightarrow> string" where
  "str_exn e =
     (case e of
        Psycopg2Error d m \<Rightarrow> m
      | AttributeError m \<Rightarrow> m
      | KeyError m \<Rightarrow> m
      | TypeError \<Rightarrow> py_repr ''NoneType'' @ '' object is not subscriptable''
      | ValueError m \<Rightarrow> m
      | EOFError \<Rightarrow> ''EOF when reading a line''
      | SystemExit n \<Rightarrow> show_nat n)"

section \<open>The state of a run\<close>

text \<open>
  What the run does not decide: the environment variables (after \<^verbatim>\<open>load_dotenv()\<close>),
  what \<^verbatim>\<open>int()\<close> makes of the text of \<^verbatim>\<open>PGPORT\<close> when the variable is set (the number,
  or the message of the \<^verbatim>\<open>ValueError\<close>), the line the operator types at the prompt
  (\<open>None\<close>: end of input), whether \<^verbatim>\<open>psycopg2.connect\<close> fails and with which message,
  the identifiers \<^verbatim>\<open>uuid.uuid4()\<close> draws, and the key-derivation function a hashing
  library would supply.
\<close>

record world =
  environ :: "string \<rightharpoonup> string"
  port_int :: "string + int"
  reply :: "string option"
  connect_error :: "string option"
  uuid4 :: "nat \<Rightarrow> string"
  kdf :: "string \<Rightarrow> string \<Rightarrow> nat \<Rightarrow> string"

record conn_params =
  host :: string
  port :: int
  dbname :: "string option"
  user :: "string option"
  password :: "string option"

text \<open>
  \<^verbatim>\<open>self.conn\<close> and \<^verbatim>\<open>self.cursor\<close>: \<open>Unset\<close> is \<^verbatim>\<open>None\<close>, \<open>Opened\<close> an open
  object, \<open>Closed\<close> an object after \<^verbatim>\<open>close()\<close>. An object is true in a condition,
  open or closed; \<^verbatim>\<open>None\<close> is false.
\<close>

datatype handle = Unset | Opened | Closed

text \<open>
  The state: the fields of the \<^verbatim>\<open>DatabaseSetup\<close> object, the database of the server,
  the rows the cursor holds, the lines printed, the statements sent (also the one the
  server rejected), the number of connection attempts and of identifiers drawn.
\<close>

record state =
  connection_params :: "conn_params option"
  conn :: handle
  cursor :: handle
  db :: database
  results :: "row list"
  out :: "string list"
  sent :: "stmt list"
  attempts :: nat
  drawn :: nat

type_synonym 'a prog = "state \<Rightarrow> 'a res \<times> state"

definition bind :: "'a prog \<Rightarrow> ('a \<Rightarrow> 'b prog) \<Rightarrow> 'b prog" where
  "bind m f s = (case m s of (Ret a, s') \<Rightarrow> f a s' | (Raise e, s') \<Rightarrow> (Raise e, s'))"

definition seq :: "unit prog \<Rightarrow> 'b prog \<Rightarrow> 'b prog" where
  "seq m k = bind m (\<lambda>u. k)"

definition skip :: "unit prog" where
  "skip s = (Ret (), s)"

definition raise :: "exn \<Rightarrow> 'a prog" where
  "raise e s = (Raise e, s)"

fun for_each :: "('a \<Rightarrow> unit prog) \<Rightarrow> 'a list \<Rightarrow> unit prog" where
  "for_each f [] s = (Ret (), s)"
| "for_each f (x # xs) s =
     (case f x s of (Ret u, s') \<Rightarrow> for_each f xs s' | (Raise e, s') \<Rightarrow> (Raise e, s'))"

text \<open>
  \<^verbatim>\<open>try: m except Exception as e: h(e)\<close> and \<^verbatim>\<open>try: m finally: fin\<close>: the handler
  runs for the subclasses of \<^verbatim>\<open>Exception\<close> only; the final block always runs, and what
  it raises replaces the result.
\<close>

definition try_except :: "'a prog \<Rightarrow> (exn \<Rightarrow> 'a prog) \<Rightarrow> 'a prog" where
  "try_except m h s =
     (case m s of
        (Ret a, s') \<Rightarrow> (Ret a, s')
      | (Raise e, s') \<Rightarrow> (if is_Exception e then h e s' else (Raise e, s')))"

definition try_finally :: "'a prog \<Rightarrow> unit prog \<Rightarrow> 'a prog" where
  "try_finally m fin s =
     (case m s of
        (r, s') \<Rightarrow> (case fin s' of (Ret u, s'') \<Rightarrow> (r, s'') | (Raise e, s'') \<Rightarrow> (Raise e, s'')))"

definition py_print :: "string \<Rightarrow> unit prog" where
  "py_print l s = (Ret (), s\<lparr>out := out s @ [l]\<rparr>)"

definition sys_exit :: "nat \<Rightarrow> 'a prog" where
  "sys_exit n = raise (SystemExit n)"

text \<open>
  The exit code of the process for the result of \<^verbatim>\<open>main\<close>: 0 when it returns, the
  argument of \<^verbatim>\<open>sys.exit\<close>, and 1 for any other exception that nothing caught.
\<close>

definition exit_code :: "'a res \<Rightarrow> nat" where
  "exit_code r = (case r of Ret a \<Rightarrow> 0 | Raise (SystemExit n) \<Rightarrow> n | Raise e \<Rightarrow> 1)"

text \<open>
  \<^verbatim>\<open>self.cursor.execute(sql)\<close>: on \<^verbatim>\<open>None\<close> there is no such attribute; a closed
  cursor or connection refuses; else the server runs the statement, and the connection
  commits each statement by itself (\<^verbatim>\<open>autocommit\<close>), so a rejected statement changes
  nothing and the earlier ones stay.
\<close>

definition execute :: "stmt \<Rightarrow> unit prog" where
  "execute st s =
     (if cursor s = Unset
        then (Raise (AttributeError (no_attribute ''NoneType'' ''execute'')), s)
      else if cursor s = Closed \<or> conn s \<noteq> Opened
        then (Raise (Psycopg2Error InterfaceError ''cursor already closed''), s)
      else (case exec st (db s) of
              Inl e \<Rightarrow> (Raise (Psycopg2Error e (wording (db s) st e)),
                        s\<lparr>results := [], sent := sent s @ [st]\<rparr>)
            | Inr (d, rs) \<Rightarrow> (Ret (), s\<lparr>db := d, results := rs, sent := sent s @ [st]\<rparr>)))"

text \<open>
  The cursor is a \<^verbatim>\<open>RealDictCursor\<close> (\<^verbatim>\<open>connect\<close>): a row it returns is a dictionary
  from column names to values, and a subscript is a key of the dictionary, so a number
  is never one.
\<close>

definition fetchone :: "row option prog" where
  "fetchone s =
     (case results s of
        [] \<Rightarrow> (Ret None, s)
      | r # rs \<Rightarrow> (Ret (Some r), s\<lparr>results := rs\<rparr>))"

definition fetchall :: "row list prog" where
  "fetchall s = (Ret (results s), s\<lparr>results := []\<rparr>)"

datatype key = IntKey int | StrKey string

definition getitem :: "row option \<Rightarrow> key \<Rightarrow> val prog" where
  "getitem r k =
     (case r of
        None \<Rightarrow> raise TypeError
      | Some d \<Rightarrow>
          (case k of
             IntKey i \<Rightarrow> raise (KeyError (show_int i))
           | StrKey c \<Rightarrow>
               (case map_of d c of
                  None \<Rightarrow> raise (KeyError (py_repr c))
                | Some v \<Rightarrow> (\<lambda>s. (Ret v, s)))))"

section \<open>Connection: \<^verbatim>\<open>__init__\<close>, \<^verbatim>\<open>connect\<close>, \<^verbatim>\<open>disconnect\<close>\<close>

definition required_vars :: "string list" where
  "required_vars = [''PGDATABASE'', ''PGUSER'', ''PGPASSWORD'']"

text \<open>\<^verbatim>\<open>not os.getenv(var)\<close>: the variable is unset or the empty string.\<close>

definition unset_var :: "world \<Rightarrow> string \<Rightarrow> bool" where
  "unset_var w v = (case environ w v of None \<Rightarrow> True | Some t \<Rightarrow> t = [])"

definition missing_vars :: "world \<Rightarrow> string list" where
  "missing_vars w = filter (unset_var w) required_vars"

text \<open>
  \<^verbatim>\<open>__init__\<close> builds the connection parameters first, and \<^verbatim>\<open>int(os.getenv('PGPORT', 5432))\<close>
  is part of that: it raises \<^verbatim>\<open>ValueError\<close> on a text \<^verbatim>\<open>int()\<close> does not accept. The
  check of the required variables comes after it.
\<close>

definition init :: "world \<Rightarrow> unit prog" where
  "init w s =
     (case (case environ w ''PGPORT'' of None \<Rightarrow> Inr 5432 | Some t \<Rightarrow> port_int w) of
        Inl m \<Rightarrow> (Raise (ValueError m), s)
      | Inr pt \<Rightarrow>
          (let s1 = s\<lparr>connection_params := Some
                 \<lparr>host = (case environ w ''PGHOST'' of None \<Rightarrow> ''localhost'' | Some h \<Rightarrow> h),
                  port = pt,
                  dbname = environ w ''PGDATABASE'',
                  user = environ w ''PGUSER'',
                  password = environ w ''PGPASSWORD''\<rparr>\<rparr>
           in if missing_vars w \<noteq> [] then
                seq (py_print (''Error: Missing required environment variables: '' @
                       join '', '' (missing_vars w)))
                 (seq (py_print ''Please set these in your .env file or environment.'')
                   (sys_exit 1)) s1
              else (Ret (), s1\<lparr>conn := Unset, cursor := Unset\<rparr>)))"

definition connect :: "world \<Rightarrow> unit prog" where
  "connect w s =
     (case connection_params s of
        None \<Rightarrow>
          (Raise (AttributeError (no_attribute ''DatabaseSetup'' ''connection_params'')), s)
      | Some p \<Rightarrow>
          seq (py_print (''Connecting to PostgreSQL at '' @ host p @ '':'' @ show_int (port p)))
            (\<lambda>s1. case connect_error w of
                None \<Rightarrow>
                  py_print (check_mark @ '' Database connection established'')
                    (s1\<lparr>attempts := attempts s1 + 1, conn := Opened, cursor := Opened\<rparr>)
              | Some m \<Rightarrow>
                  seq (py_print (''Error connecting to database: '' @ m)) (sys_exit 1)
                    (s1\<lparr>attempts := attempts s1 + 1\<rparr>)) s)"

definition disconnect :: "unit prog" where
  "disconnect s =
     (let s1 = (if cursor s \<noteq> Unset then s\<lparr>cursor := Closed\<rparr> else s);
          s2 = (if conn s1 \<noteq> Unset then s1\<lparr>conn := Closed\<rparr> else s1)
      in (Ret (), s2))"

section \<open>Schema: \<^verbatim>\<open>drop_existing_schema\<close>, \<^verbatim>\<open>create_enums\<close>, \<^verbatim>\<open>create_tables\<close>, \<^verbatim>\<open>create_indexes\<close>\<close>

definition drop_order :: "string list" where
  "drop_order =
    [''audit_events'', ''jump_logs'', ''awards'', ''badges'',
     ''step_completions'', ''progression_steps'', ''assignments'',
     ''attendance_requests'', ''preferences'', ''session_blocks'',
     ''availability'', ''mentees'', ''mentors'', ''users'']"

definition enum_names :: "string list" where
  "enum_names = [''role'', ''status'', ''comfort_level'', ''category'']"

definition drop_existing_schema :: "unit prog" where
  "drop_existing_schema =
     seq (py_print (warning_sign @ ''  Dropping existing schema...''))
      (seq (for_each (\<lambda>t. execute (DropTable t)) drop_order)
        (seq (for_each (\<lambda>e. execute (DropType e)) enum_names)
          (py_print (check_mark @ '' Existing schema dropped''))))"

text \<open>The dictionary \<^verbatim>\<open>enums\<close>, in the order it is written (the order of its items).\<close>

definition enums :: "(string \<times> string list) list" where
  "enums =
    [(''role'', [''mentor'', ''mentee'', ''admin'']),
     (''status'', [''pending'', ''confirmed'', ''declined'', ''cancelled'']),
     (''comfort_level'', [''low'', ''medium'', ''high'']),
     (''category'', [''2way'', ''3way'', ''4way'', ''canopy'', ''safety''])]"

definition create_enums :: "unit prog" where
  "create_enums =
     seq (py_print ''Creating enums...'')
      (seq (for_each (\<lambda>(enum_name, values). execute (CreateType enum_name values)) enums)
        (py_print (check_mark @ '' Enums created'')))"

definition col :: "string \<Rightarrow> coltype \<Rightarrow> column" where
  "col n ty = \<lparr>cname = n, ctype = ty, cnotnull = False, cunique = False,
               cref = None, cdefault = None\<rparr>"

definition not_null :: "column \<Rightarrow> column" where
  "not_null c = c\<lparr>cnotnull := True\<rparr>"

definition unique :: "column \<Rightarrow> column" where
  "unique c = c\<lparr>cunique := True\<rparr>"

definition primary_key :: "column \<Rightarrow> column" where
  "primary_key c = c\<lparr>cnotnull := True, cunique := True\<rparr>"

definition references :: "string \<Rightarrow> column \<Rightarrow> column" where
  "references t c = c\<lparr>cref := Some t\<rparr>"

definition with_default :: "string \<Rightarrow> column \<Rightarrow> column" where
  "with_default x c = c\<lparr>cdefault := Some x\<rparr>"

definition uuid_pk :: column where
  "uuid_pk = primary_key (with_default ''gen_random_uuid()'' (col ''id'' TUuid))"

text \<open>The fourteen \<^verbatim>\<open>CREATE TABLE\<close> statements of \<^verbatim>\<open>create_tables\<close>, in their order.\<close>

definition table_defs :: "(string \<times> column list) list" where
  "table_defs =
    [(''users'',
       [uuid_pk,
        not_null (col ''role'' (TEnum ''role'')),
        not_null (col ''name'' TText),
        unique (not_null (col ''email'' TText)),
        col ''phone'' TText,
        col ''uspa_license'' TText,
        with_default ''0'' (col ''jumps'' TInteger),
        with_default ''true'' (col ''is_active'' TBoolean),
        not_null (col ''password_hash'' TText),
        with_default ''CURRENT_TIMESTAMP'' (col ''created_at'' TTimestamp)]),
     (''mentors'',
       [references ''users'' (primary_key (col ''id'' TUuid)),
        col ''ratings'' TText,
        col ''coach_number'' TText,
        with_default ''[]'' (col ''disciplines'' TJsonb),
        with_default ''2'' (col ''max_concurrent_mentees'' TInteger),
        with_default ''0'' (col ''seniority_score'' TInteger),
        with_default ''false'' (col ''dz_endorsement'' TBoolean)]),
     (''mentees'',
       [references ''users'' (primary_key (col ''id'' TUuid)),
        col ''goals'' TText,
        with_default ''medium'' (col ''comfort_level'' (TEnum ''comfort_level'')),
        col ''canopy_size'' TInteger,
        col ''last_currency_date'' TDate]),
     (''availability'',
       [uuid_pk,
        not_null (references ''users'' (col ''user_id'' TUuid)),
        not_null (col ''role'' (TEnum ''role'')),
        not_null (col ''day_of_week'' TInteger),
        not_null (col ''start_time'' TTime),
        not_null (col ''end_time'' TTime),
        col ''start_date'' TDate,
        col ''end_date'' TDate,
        with_default ''true'' (col ''is_recurring'' TBoolean),
        col ''capacity_override'' TInteger]),
     (''session_blocks'',
       [uuid_pk,
        not_null (references ''mentors'' (col ''mentor_id'' TUuid)),
        not_null (col ''date'' TDate),
        not_null (col ''start_time'' TTime),
        not_null (col ''end_time'' TTime),
        col ''dz_id'' TUuid,
        with_default ''90'' (col ''load_interval_min'' TInteger),
        with_default ''8'' (col ''block_capacity_hint'' TInteger)]),
     (''attendance_requests'',
       [uuid_pk,
        not_null (references ''mentees'' (col ''mentee_id'' TUuid)),
        not_null (references ''session_blocks'' (col ''session_block_id'' TUuid)),
        with_default ''pending'' (col ''status'' (TEnum ''status'')),
        with_default ''CURRENT_TIMESTAMP'' (col ''created_at'' TTimestamp)]),
     (''preferences'',
       [uuid_pk,
        not_null (references ''mentees'' (col ''mentee_id'' TUuid)),
        with_default ''[]'' (col ''preferred_mentors'' TJsonb),
        with_default ''[]'' (col ''avoid_mentors'' TJsonb),
        col ''notes'' TText]),
     (''assignments'',
       [uuid_pk,
        not_null (references ''session_blocks'' (col ''session_block_id'' TUuid)),
        not_null (references ''mentors'' (col ''mentor_id'' TUuid)),
        not_null (references ''mentees'' (col ''mentee_id'' TUuid)),
        with_default ''pending'' (col ''status'' (TEnum ''status'')),
        with_default ''CURRENT_TIMESTAMP'' (col ''created_at'' TTimestamp)]),
     (''progression_steps'',
       [uuid_pk,
        not_null (unique (col ''code'' TText)),
        not_null (col ''title'' TText),
        col ''description'' TText,
        not_null (col ''category'' (TEnum ''category'')),
        with_default ''true'' (col ''required'' TBoolean),
        with_default ''0'' (col ''min_jumps_gate'' TInteger),
        col ''references'' TJsonb]),
     (''step_completions'',
       [uuid_pk,
        not_null (references ''mentees'' (col ''mentee_id'' TUuid)),
        not_null (references ''progression_steps'' (col ''step_id'' TUuid)),
        not_null (references ''mentors'' (col ''mentor_id'' TUuid)),
        with_default ''CURRENT_TIMESTAMP'' (col ''completed_at'' TTimestamp),
        col ''evidence_url'' TText,
        col ''notes'' TText]),
     (''badges'',
       [uuid_pk,
        not_null (unique (col ''code'' TText)),
        not_null (col ''name'' TText),
        col ''description'' TText,
        col ''criteria_json'' TJsonb]),
     (''awards'',
       [uuid_pk,
        not_null (references ''mentees'' (col ''mentee_id'' TUuid)),
        not_null (references ''badges'' (col ''badge_id'' TUuid)),
        with_default ''CURRENT_TIMESTAMP'' (col ''awarded_at'' TTimestamp)]),
     (''jump_logs'',
       [uuid_pk,
        not_null (references ''mentees'' (col ''mentee_id'' TUuid)),
        not_null (col ''date'' TDate),
        not_null (col ''jump_number'' TInteger),
        col ''aircraft'' TText,
        col ''exit_alt'' TInteger,
        col ''freefall_time'' TInteger,
        col ''deployment_alt'' TInteger,
        col ''pattern_notes'' TText,
        col ''drill_ref'' TText,
        references ''mentors'' (col ''mentor_id'' TUuid)]),
     (''audit_events'',
       [uuid_pk,
        references ''users'' (col ''actor_id'' TUuid),
        not_null (col ''type'' TText),
        col ''payload_json'' TJsonb,
        with_default ''CURRENT_TIMESTAMP'' (col ''at'' TTimestamp)])]"

definition create_tables :: "unit prog" where
  "create_tables =
     seq (py_print ''Creating tables...'')
      (seq (for_each (\<lambda>(t, cols). execute (CreateTable t cols)) table_defs)
        (py_print (check_mark @ '' Tables created'')))"

definition index_defs :: "stmt list" where
  "index_defs =
    [CreateIndex ''idx_users_email'' ''users'' [''email''],
     CreateIndex ''idx_users_role'' ''users'' [''role''],
     CreateIndex ''idx_availability_user_id'' ''availability'' [''user_id''],
     CreateIndex ''idx_availability_day_role'' ''availability'' [''day_of_week'', ''role''],
     CreateIndex ''idx_session_blocks_mentor_date'' ''session_blocks'' [''mentor_id'', ''date''],
     CreateIndex ''idx_attendance_requests_session'' ''attendance_requests'' [''session_block_id''],
     CreateIndex ''idx_assignments_session'' ''assignments'' [''session_block_id''],
     CreateIndex ''idx_assignments_mentor'' ''assignments'' [''mentor_id''],
     CreateIndex ''idx_assignments_mentee'' ''assignments'' [''mentee_id''],
     CreateIndex ''idx_step_completions_mentee'' ''step_completions'' [''mentee_id''],
     CreateIndex ''idx_step_completions_step'' ''step_completions'' [''step_id''],
     CreateIndex ''idx_progression_steps_category'' ''progression_steps'' [''category''],
     CreateIndex ''idx_awards_mentee'' ''awards'' [''mentee_id''],
     CreateIndex ''idx_jump_logs_mentee'' ''jump_logs'' [''mentee_id''],
     CreateIndex ''idx_audit_events_actor'' ''audit_events'' [''actor_id''],
     CreateIndex ''idx_audit_events_type_at'' ''audit_events'' [''type'', ''at'']]"

definition create_indexes :: "unit prog" where
  "create_indexes =
     seq (py_print ''Creating indexes...'')
      (seq (for_each execute index_defs)
        (py_print (check_mark @ '' Indexes created'')))"

section \<open>Seed data\<close>

text \<open>
  The names the module \<^verbatim>\<open>hashlib\<close> of the Python standard library defines. The script
  calls \<^verbatim>\<open>hashlib.pbkdf2_hex(password.encode(), b'salt', 100000)\<close>; looking up a name
  the module does not define raises \<^verbatim>\<open>AttributeError\<close>.
\<close>

definition hashlib_names :: "string list" where
  "hashlib_names =
    [''md5'', ''sha1'', ''sha224'', ''sha256'', ''sha384'', ''sha512'',
     ''blake2b'', ''blake2s'', ''sha3_224'', ''sha3_256'', ''sha3_384'', ''sha3_512'',
     ''shake_128'', ''shake_256'', ''new'', ''algorithms_guaranteed'',
     ''algorithms_available'', ''pbkdf2_hmac'', ''scrypt'', ''file_digest'']"

definition hash_password :: "world \<Rightarrow> string \<Rightarrow> string res" where
  "hash_password w passwd =
     (if ''pbkdf2_hex'' \<in> set hashlib_names then Ret (kdf w passwd ''salt'' 100000)
      else Raise (AttributeError (no_module_attribute ''hashlib'' ''pbkdf2_hex'')))"

definition uuid_str :: "world \<Rightarrow> string prog" where
  "uuid_str w s = (Ret (uuid4 w (drawn s)), s\<lparr>drawn := drawn s + 1\<rparr>)"

definition lift :: "'a res \<Rightarrow> 'a prog" where
  "lift r s = (r, s)"

record seed_user =
  u_role :: string
  u_name :: string
  u_email :: string
  u_phone :: string
  u_uspa_license :: string
  u_jumps :: int
  u_password :: string

definition users_data :: "seed_user list" where
  "users_data =
    [\<lparr>u_role = ''mentor'', u_name = ''Alex Rodriguez'', u_email = ''mentor@test.com'',
      u_phone = ''+1-555-0101'', u_uspa_license = ''D-12345'', u_jumps = 2500,
      u_password = ''password123''\<rparr>,
     \<lparr>u_role = ''mentee'', u_name = ''Sarah Johnson'', u_email = ''mentee@test.com'',
      u_phone = ''+1-555-0102'', u_uspa_license = ''A-67890'', u_jumps = 25,
      u_password = ''password123''\<rparr>,
     \<lparr>u_role = ''admin'', u_name = ''Mike Admin'', u_email = ''admin@test.com'',
      u_phone = ''+1-555-0103'', u_uspa_license = ''D-54321'', u_jumps = 5000,
      u_password = ''password123''\<rparr>]"

text \<open>
  The loop of \<^verbatim>\<open>seed_users\<close>: an identifier is drawn, the password is hashed, the row
  is inserted, and the dictionary \<^verbatim>\<open>user_ids\<close> gets the identifier under the role.
\<close>

fun seed_users_loop ::
  "world \<Rightarrow> seed_user list \<Rightarrow> (string \<rightharpoonup> string) \<Rightarrow> (string \<rightharpoonup> string) prog" where
  "seed_users_loop w [] user_ids = (\<lambda>s. (Ret user_ids, s))"
| "seed_users_loop w (user_data # rest) user_ids =
     bind (uuid_str w) (\<lambda>user_id.
     bind (lift (hash_password w (u_password user_data))) (\<lambda>password_hash.
     seq (execute (Insert ''users''
            [(''id'', VStr user_id), (''role'', VStr (u_role user_data)),
             (''name'', VStr (u_name user_data)), (''email'', VStr (u_email user_data)),
             (''phone'', VStr (u_phone user_data)),
             (''uspa_license'', VStr (u_uspa_license user_data)),
             (''jumps'', VInt (u_jumps user_data)),
             (''password_hash'', VStr password_hash)]))
       (seed_users_loop w rest (user_ids(u_role user_data \<mapsto> user_id)))))"

definition seed_users :: "world \<Rightarrow> (string \<rightharpoonup> string) prog" where
  "seed_users w =
     seq (py_print ''Creating seed users...'')
      (bind (seed_users_loop w users_data Map.empty) (\<lambda>user_ids.
        seq (py_print (check_mark @ '' Seed users created''))
          (\<lambda>s. (Ret user_ids, s))))"

text \<open>\<^verbatim>\<open>user_ids[k]\<close>: a missing key raises \<^verbatim>\<open>KeyError\<close>.\<close>

definition lookup :: "(string \<rightharpoonup> string) \<Rightarrow> string \<Rightarrow> string prog" where
  "lookup m k =
     (case m k of None \<Rightarrow> raise (KeyError (py_repr k)) | Some v \<Rightarrow> (\<lambda>s. (Ret v, s)))"

definition seed_profiles :: "(string \<rightharpoonup> string) \<Rightarrow> unit prog" where
  "seed_profiles user_ids =
     seq (py_print ''Creating user profiles...'')
      (bind (lookup user_ids ''mentor'') (\<lambda>mentor.
       seq (execute (Insert ''mentors''
              [(''id'', VStr mentor), (''ratings'', VStr ''AFF-I, Tandem, Coach''),
               (''coach_number'', VStr ''C-12345''),
               (''disciplines'', VStr ''[\"AFF\", \"Tandem\", \"Coaching\"]''),
               (''max_concurrent_mentees'', VInt 3), (''seniority_score'', VInt 85),
               (''dz_endorsement'', VBool True)]))
      (bind (lookup user_ids ''admin'') (\<lambda>admin.
       seq (execute (Insert ''mentors''
              [(''id'', VStr admin),
               (''ratings'', VStr ''AFF-I, Tandem, Coach, Instructor Examiner''),
               (''coach_number'', VStr ''IE-98765''),
               (''disciplines'', VStr ''[\"AFF\", \"Tandem\", \"Coaching\", \"Camera\"]''),
               (''max_concurrent_mentees'', VInt 5), (''seniority_score'', VInt 100),
               (''dz_endorsement'', VBool True)]))
      (bind (lookup user_ids ''mentee'') (\<lambda>mentee.
       seq (execute (Insert ''mentees''
              [(''id'', VStr mentee),
               (''goals'', VStr ''Complete AFF program and get A-license''),
               (''comfort_level'', VStr ''medium''), (''canopy_size'', VInt 280),
               (''last_currency_date'', VStr ''2024-12-15'')]))
        (py_print (check_mark @ '' User profiles created''))))))))"

definition progression_data :: "(string \<times> string \<times> string \<times> string \<times> int) list" where
  "progression_data =
    [(''2W-01'', ''Basic 2-Way Exit'', ''Learn synchronized exits with partner for stable relative work'', ''2way'', 26),
     (''2W-02'', ''2-Way Sequential'', ''Complete 2-point sequential moves with partner'', ''2way'', 30),
     (''3W-01'', ''Star Exit'', ''Master 3-way star exit from aircraft'', ''3way'', 35),
     (''3W-02'', ''Sidebody Donut'', ''Build and hold sidebody donut formation'', ''3way'', 40),
     (''3W-03'', ''Open Accordion'', ''Transition through open accordion formation'', ''3way'', 45),
     (''3W-04'', ''Cat to Bipole'', ''Execute cat to bipole transition smoothly'', ''3way'', 50),
     (''3W-05'', ''3-Way Sequential'', ''Complete 3-point sequential with 2 partners'', ''3way'', 55),
     (''3W-06'', ''3-Way Random'', ''Complete random 3-way formations from draw'', ''3way'', 60),
     (''4W-01'', ''Star to Diamond'', ''Transition from star to diamond formation'', ''4way'', 65),
     (''4W-02'', ''Meeker Exit'', ''Execute proper 4-way meeker exit'', ''4way'', 68),
     (''4W-03'', ''Compressed Accordion'', ''Build compressed accordion with 3 partners'', ''4way'', 71),
     (''4W-04'', ''Bipole to Donut'', ''Smooth transition from bipole to donut'', ''4way'', 74),
     (''4W-05'', ''Sidebody Box'', ''Form and maintain sidebody box formation'', ''4way'', 77),
     (''4W-06'', ''Murphy Flake'', ''Complete murphy flake with proper grips'', ''4way'', 80),
     (''4W-07'', ''4-Way Sequential'', ''Execute 4-point sequential moves'', ''4way'', 83),
     (''4W-08'', ''Zipper to Bow'', ''Transition from zipper to bow formation'', ''4way'', 86),
     (''4W-09'', ''Block Sequence'', ''Complete 2-block sequence with team'', ''4way'', 90),
     (''4W-10'', ''4-Way Competition'', ''Perform competition-level 4-way sequences'', ''4way'', 95),
     (''CAN-01'', ''Accuracy Landing'', ''Land within 5 meters of target consistently'', ''canopy'', 30),
     (''CAN-02'', ''Traffic Pattern'', ''Navigate busy pattern with proper spacing'', ''canopy'', 40),
     (''CAN-03'', ''Emergency Procedures'', ''Demonstrate malfunction response procedures'', ''canopy'', 50),
     (''SAF-01'', ''Altitude Awareness'', ''Demonstrate proper altitude discipline'', ''safety'', 26),
     (''SAF-02'', ''Collision Avoidance'', ''Show effective air traffic awareness'', ''safety'', 35),
     (''SAF-03'', ''Emergency Response'', ''Execute emergency action plan correctly'', ''safety'', 45)]"

definition seed_progression_steps :: "unit prog" where
  "seed_progression_steps =
     seq (py_print ''Creating progression steps...'')
      (seq (for_each (\<lambda>(code, title, description, category, min_jumps).
              execute (Insert ''progression_steps''
                [(''code'', VStr code), (''title'', VStr title),
                 (''description'', VStr description), (''category'', VStr category),
                 (''min_jumps_gate'', VInt min_jumps)])) progression_data)
        (py_print (check_mark @ '' Progression steps created'')))"

definition badges_data :: "(string \<times> string \<times> string) list" where
  "badges_data =
    [(''FIRST_2WAY'', ''First 2-Way'', ''Complete your first 2-way formation''),
     (''FIRST_3WAY'', ''First 3-Way'', ''Complete your first 3-way formation''),
     (''FIRST_4WAY'', ''First 4-Way'', ''Complete your first 4-way formation''),
     (''FORMATION_MASTER'', ''Formation Master'', ''Complete all formation progression steps''),
     (''CANOPY_PILOT'', ''Canopy Pilot'', ''Master all canopy control skills''),
     (''SAFETY_CONSCIOUS'', ''Safety Conscious'', ''Complete all safety training''),
     (''A_LICENSE_READY'', ''A-License Ready'', ''Complete entire A-license curriculum''),
     (''QUICK_LEARNER'', ''Quick Learner'', ''Complete 5 steps in one week''),
     (''DEDICATED_STUDENT'', ''Dedicated Student'', ''Complete 20 jumps in training''),
     (''MENTOR_FAVORITE'', ''Mentor's Favorite'', ''Receive positive feedback from 3 different mentors'')]"

definition seed_badges :: "unit prog" where
  "seed_badges =
     seq (py_print ''Creating badges...'')
      (seq (for_each (\<lambda>(code, name, description).
              execute (Insert ''badges''
                [(''code'', VStr code), (''name'', VStr name),
                 (''description'', VStr description)])) badges_data)
        (py_print (check_mark @ '' Badges created'')))"

definition seed_sample_data :: "world \<Rightarrow> (string \<rightharpoonup> string) \<Rightarrow> unit prog" where
  "seed_sample_data w user_ids =
     seq (py_print ''Creating sample data...'')
      (bind (lookup user_ids ''mentor'') (\<lambda>mentor.
       seq (execute (Insert ''availability''
              [(''user_id'', VStr mentor), (''role'', VStr ''mentor''),
               (''day_of_week'', VInt 6), (''start_time'', VStr ''08:00''),
               (''end_time'', VStr ''17:00'')]))
      (bind (lookup user_ids ''mentee'') (\<lambda>mentee.
       seq (execute (Insert ''availability''
              [(''user_id'', VStr mentee), (''role'', VStr ''mentee''),
               (''day_of_week'', VInt 6), (''start_time'', VStr ''09:00''),
               (''end_time'', VStr ''16:00'')]))
      (bind (uuid_str w) (\<lambda>session_id.
       bind (lookup user_ids ''mentor'') (\<lambda>mentor2.
       seq (execute (Insert ''session_blocks''
              [(''id'', VStr session_id), (''mentor_id'', VStr mentor2),
               (''date'', VExpr ''CURRENT_DATE + 1''), (''start_time'', VStr ''10:00''),
               (''end_time'', VStr ''15:00'')]))
      (bind (lookup user_ids ''mentee'') (\<lambda>mentee2.
       seq (execute (Insert ''attendance_requests''
              [(''mentee_id'', VStr mentee2), (''session_block_id'', VStr session_id),
               (''status'', VStr ''confirmed'')]))
      (bind (lookup user_ids ''mentor'') (\<lambda>mentor3.
       bind (lookup user_ids ''mentee'') (\<lambda>mentee3.
       seq (execute (Insert ''assignments''
              [(''session_block_id'', VStr session_id), (''mentor_id'', VStr mentor3),
               (''mentee_id'', VStr mentee3), (''status'', VStr ''confirmed'')]))
        (py_print (check_mark @ '' Sample data created''))))))))))))))"

section \<open>Verification: \<^verbatim>\<open>verify_setup\<close>\<close>

definition verify_tables :: "string list" where
  "verify_tables =
    [''users'', ''mentors'', ''mentees'', ''progression_steps'',
     ''badges'', ''availability'', ''session_blocks'']"

text \<open>
  The first loop of \<^verbatim>\<open>verify_setup\<close>: the count of a table is read as
  \<^verbatim>\<open>self.cursor.fetchone()[0]\<close>, a subscript by a number.
\<close>

definition verify_counts :: "unit prog" where
  "verify_counts =
     for_each (\<lambda>t.
       seq (execute (SelectCount t))
        (bind fetchone (\<lambda>r.
         bind (getitem r (IntKey 0)) (\<lambda>count.
          py_print (''  '' @ t @ '': '' @ show_val count @ '' records'')))))
       verify_tables"

text \<open>
  The second part: the grouped query, then one line for each row of its answer, read as
  \<^verbatim>\<open>row['category']\<close> and \<^verbatim>\<open>row['count']\<close>.
\<close>

definition skills_line :: "val \<Rightarrow> val \<Rightarrow> string" where
  "skills_line c n = ''  '' @ show_val c @ '': '' @ show_val n @ '' skills''"

definition verify_breakdown :: "unit prog" where
  "verify_breakdown =
     seq (execute SelectFormationCounts)
      (bind fetchall (\<lambda>formation_counts.
       seq (py_print (newline @ ''Progression breakdown:''))
        (for_each (\<lambda>r.
           bind (getitem (Some r) (StrKey ''category'')) (\<lambda>c.
           bind (getitem (Some r) (StrKey ''count'')) (\<lambda>n.
            py_print (skills_line c n))))
          formation_counts)))"

definition verify_setup :: "unit prog" where
  "verify_setup =
     seq (py_print ''Verifying database setup...'')
      (seq verify_counts
        (seq verify_breakdown
          (py_print (check_mark @ '' Database verification complete''))))"

section \<open>Orchestration: \<^verbatim>\<open>run_setup\<close> and \<^verbatim>\<open>main\<close>\<close>

definition summary :: "unit prog" where
  "summary s =
     (case connection_params s of
        None \<Rightarrow>
          (Raise (AttributeError (no_attribute ''DatabaseSetup'' ''connection_params'')), s)
      | Some p \<Rightarrow>
          seq (py_print (newline @ party_popper @ '' Database setup completed successfully!''))
           (seq (py_print (newline @ ''Test accounts created:''))
            (seq (py_print ''  Mentor: mentor@test.com / password123'')
             (seq (py_print ''  Mentee: mentee@test.com / password123'')
              (seq (py_print ''  Admin: admin@test.com / password123'')
               (seq (py_print (newline @ ''Database: '' @
                       (case dbname p of None \<Rightarrow> ''None'' | Some n \<Rightarrow> n)))
                 (py_print (''Host: '' @ host p @ '':'' @ show_int (port p)))))))) s)"

text \<open>The body of the \<^verbatim>\<open>try\<close> block of \<^verbatim>\<open>run_setup\<close>.\<close>

definition setup_body :: "world \<Rightarrow> bool \<Rightarrow> unit prog" where
  "setup_body w drop_existing =
     seq (connect w)
      (seq (if drop_existing then drop_existing_schema else skip)
       (seq create_enums
        (seq create_tables
         (seq create_indexes
          (bind (seed_users w) (\<lambda>user_ids.
           seq (seed_profiles user_ids)
            (seq seed_progression_steps
             (seq seed_badges
              (seq (seed_sample_data w user_ids)
               (seq verify_setup summary))))))))))"

definition setup_failed :: "exn \<Rightarrow> string" where
  "setup_failed e = cross_mark @ '' Setup failed: '' @ str_exn e"

definition run_setup :: "world \<Rightarrow> bool \<Rightarrow> unit prog" where
  "run_setup w drop_existing =
     seq (py_print (rocket @ '' SkyMentor Database Setup''))
      (seq (py_print (replicate 40 (CHR ''='')))
        (try_finally
          (try_except (setup_body w drop_existing)
            (\<lambda>e. seq (py_print (setup_failed e)) (sys_exit 1)))
          disconnect))"

text \<open>
  \<^verbatim>\<open>main\<close>, after the command line is parsed: \<open>drop_existing\<close> is the flag
  \<^verbatim>\<open>--drop-existing\<close>. \<^verbatim>\<open>input\<close> writes the prompt and reads a line; at the end of
  input it raises \<^verbatim>\<open>EOFError\<close>.
\<close>

definition prompt :: string where
  "prompt = warning_sign @ ''  This will DROP ALL EXISTING DATA. Continue? (yes/no): ''"

definition input :: "world \<Rightarrow> string \<Rightarrow> string prog" where
  "input w p =
     bind (py_print p) (\<lambda>u. case reply w of None \<Rightarrow> raise EOFError | Some l \<Rightarrow> (\<lambda>s. (Ret l, s)))"

definition main :: "world \<Rightarrow> bool \<Rightarrow> unit prog" where
  "main w drop_existing =
     (if drop_existing then
        bind (input w prompt) (\<lambda>confirm.
          if py_lower confirm \<noteq> ''yes'' then py_print ''Setup cancelled.''
          else seq (init w) (run_setup w drop_existing))
      else seq (init w) (run_setup w drop_existing))"

section \<open>Concrete runs\<close>

text \<open>
  The wording of the concrete databases below. For four rejections it is the message of
  PostgreSQL (a type or a relation that exists already, a type a table requires, a
  relation that is not a table); for any other rejection it is the name of the error
  condition. The theorems hold for every wording; only concrete runs use this one.
\<close>

definition quoted :: "string \<Rightarrow> string" where
  "quoted t = [CHR 0x22] @ t @ [CHR 0x22]"

definition condition_name :: "dberror \<Rightarrow> string" where
  "condition_name e =
     (case e of
        SyntaxError \<Rightarrow> ''syntax_error''
      | DuplicateObject \<Rightarrow> ''duplicate_object''
      | DuplicateTable \<Rightarrow> ''duplicate_table''
      | UndefinedObject \<Rightarrow> ''undefined_object''
      | UndefinedTable \<Rightarrow> ''undefined_table''
      | UndefinedColumn \<Rightarrow> ''undefined_column''
      | NotNullViolation \<Rightarrow> ''not_null_violation''
      | InvalidTextRepresentation \<Rightarrow> ''invalid_text_representation''
      | UniqueViolation \<Rightarrow> ''unique_violation''
      | ForeignKeyViolation \<Rightarrow> ''foreign_key_violation''
      | WrongObjectType \<Rightarrow> ''wrong_object_type''
      | DependentObjectsStillExist \<Rightarrow> ''dependent_objects_still_exist''
      | InterfaceError \<Rightarrow> ''cursor already closed'')"

definition pg_wording :: "stmt \<Rightarrow> dberror \<Rightarrow> string" where
  "pg_wording st e =
     (case st of
        CreateType n ls \<Rightarrow>
          (if e = DuplicateObject then ''type '' @ quoted n @ '' already exists'' @ newline
           else condition_name e @ newline)
      | CreateTable t cols \<Rightarrow>
          (if e = DuplicateTable then ''relation '' @ quoted t @ '' already exists'' @ newline
           else condition_name e @ newline)
      | DropType n \<Rightarrow>
          (if e = DependentObjectsStillExist
           then ''cannot drop type '' @ n @ '' because table '' @ n @ '' requires it'' @ newline @
                ''HINT:  You can drop table '' @ n @ '' instead.'' @ newline
           else condition_name e @ newline)
      | DropTable t \<Rightarrow>
          (if e = WrongObjectType
           then quoted t @ '' is not a table'' @ newline @
                ''HINT:  Use DROP INDEX to remove an index.'' @ newline
           else condition_name e @ newline)
      | _ \<Rightarrow> condition_name e @ newline)"

text \<open>
  States and worlds to run the program on: a server with nothing in it, the state of
  the process before \<^verbatim>\<open>main\<close>, the state after a successful \<^verbatim>\<open>connect\<close>, and a world where
  the three required variables are set, \<^verbatim>\<open>PGPORT\<close> is not, the operator answers \<^verbatim>\<open>no\<close>
  and the server accepts the connection.
\<close>

definition empty_db :: database where
  "empty_db =
     \<lparr>types = Map.empty, tables = Map.empty, indexes = Map.empty, wording = pg_wording\<rparr>"

definition start :: "database \<Rightarrow> state" where
  "start d = \<lparr>connection_params = None, conn = Unset, cursor = Unset, db = d,
              results = [], out = [], sent = [], attempts = 0, drawn = 0\<rparr>"

definition connected :: "database \<Rightarrow> state" where
  "connected d = (start d)\<lparr>conn := Opened, cursor := Opened\<rparr>"

definition demo_world :: world where
  "demo_world =
     \<lparr>environ = [''PGDATABASE'' \<mapsto> ''skymentor'', ''PGUSER'' \<mapsto> ''postgres'',
                 ''PGPASSWORD'' \<mapsto> ''secret''],
      port_int = Inr 5432,
      reply = Some ''no'',
      connect_error = None,
      uuid4 = (\<lambda>n. ''uuid-'' @ show_nat n),
      kdf = (\<lambda>p salt n. p @ salt)\<rparr>"

text \<open>
  \<^verbatim>\<open>PGPORT\<close> is unset, or \<^verbatim>\<open>int()\<close> accepts its text. The operator has typed \<^verbatim>\<open>yes\<close> at
  the prompt, in any letter case. A world where \<^verbatim>\<open>PGPORT\<close> is \<^verbatim>\<open>abc\<close>, which \<^verbatim>\<open>int()\<close>
  refuses, and \<^verbatim>\<open>PGUSER\<close> is unset; and a world where only \<^verbatim>\<open>PGUSER\<close> is unset.
\<close>

definition port_ok :: "world \<Rightarrow> bool" where
  "port_ok w =
     (case environ w ''PGPORT'' of
        None \<Rightarrow> True
      | Some t \<Rightarrow> (case port_int w of Inl m \<Rightarrow> False | Inr n \<Rightarrow> True))"

definition answered_yes :: "world \<Rightarrow> bool" where
  "answered_yes w = (case reply w of None \<Rightarrow> False | Some l \<Rightarrow> py_lower l = ''yes'')"

definition bad_port_message :: string where
  "bad_port_message = ''invalid literal for int() with base 10: '' @ py_repr ''abc''"

definition bad_port_world :: world where
  "bad_port_world =
     demo_world\<lparr>environ := [''PGPORT'' \<mapsto> ''abc'', ''PGDATABASE'' \<mapsto> ''skymentor'',
                              ''PGPASSWORD'' \<mapsto> ''secret''],
                 port_int := Inl bad_port_message\<rparr>"

definition no_user_world :: world where
  "no_user_world =
     demo_world\<lparr>environ := [''PGDATABASE'' \<mapsto> ''skymentor'', ''PGPASSWORD'' \<mapsto> ''secret'']\<rparr>"

text \<open>The same world with an operator who answers \<^verbatim>\<open>YES\<close>.\<close>

definition confirming_world :: world where
  "confirming_world = no_user_world\<lparr>reply := Some ''YES''\<rparr>"

text \<open>A state in which statements reach the server: cursor and connection are open.\<close>

definition ready :: "state \<Rightarrow> bool" where
  "ready s = (cursor s = Opened \<and> conn s = Opened)"

text \<open>
  The foreign keys of the schema, as pairs of the referencing and the referenced table,
  read off the \<^verbatim>\<open>REFERENCES\<close> clauses of \<^verbatim>\<open>create_tables\<close>; and the place of a table in
  the order in which \<^verbatim>\<open>drop_existing_schema\<close> drops.
\<close>

definition fk_edges :: "(string \<times> string) list" where
  "fk_edges =
     concat (map (\<lambda>(t, cols). List.map_filter (\<lambda>c. map_option (Pair t) (cref c)) cols)
       table_defs)"

fun position :: "'a \<Rightarrow> 'a list \<Rightarrow> nat option" where
  "position a [] = None"
| "position a (x # xs) = (if x = a then Some 0 else map_option Suc (position a xs))"

definition dropped_before :: "string \<Rightarrow> string \<Rightarrow> bool" where
  "dropped_before t p =
     (case (position t drop_order, position p drop_order) of
        (Some i, Some j) \<Rightarrow> i < j
      | _ \<Rightarrow> False)"

text \<open>
  The condition under which the server rejects no statement of the reset: none of the
  fourteen table names is the name of an index, and none of the four type names is the
  name of a table.
\<close>

definition droppable :: "database \<Rightarrow> bool" where
  "droppable d =
     (list_all (\<lambda>t. indexes d t = None) drop_order \<and>
      list_all (\<lambda>e. tables d e = None) enum_names)"

text \<open>
  The schema reset followed by the schema creation, as \<^verbatim>\<open>run_setup\<close> runs them with
  \<^verbatim>\<open>drop_existing\<close> set; and the statements \<^verbatim>\<open>create_enums\<close> and \<^verbatim>\<open>create_tables\<close> send
  when nothing is rejected.
\<close>

definition reset_then_create :: "unit prog" where
  "reset_then_create = seq drop_existing_schema (seq create_enums create_tables)"


definition table_stmts :: "stmt list" where
  "table_stmts = map (\<lambda>(t, cols). CreateTable t cols) table_defs"





text \<open>
  A step that only reads: it leaves the database as it is, and every statement it sends
  is a \<^verbatim>\<open>SELECT\<close>.
\<close>

definition read_only :: "'a prog \<Rightarrow> bool" where
  "read_only m =
     (\<forall>s. db (snd (m s)) = db s \<and>
          (\<exists>l. sent (snd (m s)) = sent s @ l \<and> list_all is_select l))"

text \<open>
  A database left by earlier work: the type \<^verbatim>\<open>role\<close>, the table \<^verbatim>\<open>users\<close> with one row,
  the table \<^verbatim>\<open>mentors\<close> with one row that refers to the user, and an index on \<^verbatim>\<open>users\<close>.
  And a database whose only object is a table named \<^verbatim>\<open>category\<close>.
\<close>

definition old_db :: database where
  "old_db =
     \<lparr>types = [''role'' \<mapsto> [''mentor'', ''mentee'', ''admin'']],
      tables =
        [''users'' \<mapsto>
           \<lparr>tcols = [uuid_pk, not_null (col ''role'' (TEnum ''role'')),
                     not_null (col ''name'' TText)],
            trows = [[(''id'', VStr ''u-1''), (''role'', VStr ''admin''),
                      (''name'', VStr ''Mike Admin'')]]\<rparr>,
         ''mentors'' \<mapsto>
           \<lparr>tcols = [references ''users'' (primary_key (col ''id'' TUuid)),
                     col ''ratings'' TText],
            trows = [[(''id'', VStr ''u-1''), (''ratings'', VStr ''Coach'')]]\<rparr>],
      indexes = [''idx_users_role'' \<mapsto> ''users''],
      wording = pg_wording\<rparr>"

definition category_db :: database where
  "category_db =
     empty_db\<lparr>tables :=
       [''category'' \<mapsto> \<lparr>tcols = [uuid_pk, not_null (col ''name'' TText)], trows = []\<rparr>]\<rparr>"

section \<open>Cleanup without a connection\<close>

text \<open>
  C10. \<^verbatim>\<open>disconnect\<close> on an object whose connection and cursor are both \<^verbatim>\<open>None\<close> does
  nothing and raises nothing: the state is returned as it was. This is the state
  \<^verbatim>\<open>__init__\<close> leaves, and the state after a \<^verbatim>\<open>connect\<close> that failed, so the final
  block of \<^verbatim>\<open>run_setup\<close> is safe there: when \<^verbatim>\<open>psycopg2.connect\<close> fails, the run ends
  with exit code 1, no statement sent, and both handles still \<^verbatim>\<open>None\<close>.
\<close>

theorem disconnect_unconnected:
  assumes "conn s = Unset" and "cursor s = Unset"
  shows "disconnect s = (Ret (), s) \<and>
         (\<forall>w s'. init w s = (Ret (), s') \<longrightarrow> disconnect s' = (Ret (), s')) \<and>
         (\<forall>(w::world) d m p. connect_error w = Some m \<and> connection_params s = Some p \<longrightarrow>
            fst (run_setup w d s) = Raise (SystemExit 1) \<and>
            conn (snd (run_setup w d s)) = Unset \<and>
            cursor (snd (run_setup w d s)) = Unset \<and>
            sent (snd (run_setup w d s)) = sent s)"
proof (intro conjI allI impI)
  show "disconnect s = (Ret (), s)"
    using assms by (simp add: disconnect_def)
next
  fix w s'
  assume "init w s = (Ret (), s')"
  then have "conn s' = Unset \<and> cursor s' = Unset"
    by (auto simp: init_def seq_def bind_def py_print_def sys_exit_def raise_def Let_def
        split: option.splits sum.splits if_splits)
  then show "disconnect s' = (Ret (), s')"
    by (simp add: disconnect_def)
next
  fix w :: world and d m p
  assume h: "connect_error w = Some m \<and> connection_params s = Some p"
  have body: "setup_body w d (snd (py_print l2 (snd (py_print l1 s)))) =
      (Raise (SystemExit 1),
       s\<lparr>attempts := attempts s + 1,
         out := out s @ [l1, l2, ''Connecting to PostgreSQL at '' @ host p @ '':'' @ show_int (port p),
           ''Error connecting to database: '' @ m]\<rparr>)" for l1 l2
    using h
    by (simp add: setup_body_def connect_def seq_def bind_def py_print_def sys_exit_def raise_def)
  have run: "run_setup w d s =
      (Raise (SystemExit 1),
       s\<lparr>attempts := attempts s + 1,
         out := out s @ [rocket @ '' SkyMentor Database Setup'', replicate 40 (CHR ''=''),
           ''Connecting to PostgreSQL at '' @ host p @ '':'' @ show_int (port p),
           ''Error connecting to database: '' @ m]\<rparr>)"
    using body [of "replicate 40 (CHR ''='')" "rocket @ '' SkyMentor Database Setup''"] assms
    by (simp add: run_setup_def seq_def bind_def py_print_def try_finally_def try_except_def
        disconnect_def)
  show "fst (run_setup w d s) = Raise (SystemExit 1)" by (simp add: run)
  show "conn (snd (run_setup w d s)) = Unset" by (simp add: run assms)
  show "cursor (snd (run_setup w d s)) = Unset" by (simp add: run assms)
  show "sent (snd (run_setup w d s)) = sent s" by (simp add: run)
qed

theorem disconnect_unconnected_witness:
  "conn (start empty_db) = Unset \<and> cursor (start empty_db) = Unset \<and>
   disconnect (start empty_db) = (Ret (), start empty_db)"
proof -
  have c: "conn (start empty_db) = Unset" and u: "cursor (start empty_db) = Unset"
    by (simp_all add: start_def)
  from disconnect_unconnected [OF c u] show ?thesis
    using c u by simp
qed

section \<open>The confirmation of the destructive reset\<close>

text \<open>
  C9. When \<^verbatim>\<open>--drop-existing\<close> is given and the line the operator types is not \<^verbatim>\<open>yes\<close>
  (in any mix of upper and lower case), \<^verbatim>\<open>main\<close> writes the prompt and
  \<^verbatim>\<open>Setup cancelled.\<close> and returns: nothing else of the state changes, so the database,
  the statements sent and the connection attempts are as before, and the exit code is 0.
\<close>

theorem main_declined:
  assumes "reply w = Some c" and "py_lower c \<noteq> ''yes''"
  shows "main w True s = (Ret (), s\<lparr>out := out s @ [prompt, ''Setup cancelled.'']\<rparr>) \<and>
         db (snd (main w True s)) = db s \<and>
         sent (snd (main w True s)) = sent s \<and>
         attempts (snd (main w True s)) = attempts s \<and>
         exit_code (fst (main w True s)) = 0"
  using assms by (simp add: main_def input_def bind_def py_print_def exit_code_def)

theorem main_declined_witness:
  "reply demo_world = Some ''no'' \<and> py_lower ''no'' \<noteq> ''yes'' \<and>
   main demo_world True (start empty_db) =
     (Ret (), (start empty_db)\<lparr>out := [prompt, ''Setup cancelled.'']\<rparr>) \<and>
   sent (snd (main demo_world True (start empty_db))) = []"
proof -
  have r: "reply demo_world = Some ''no''"
    by (simp add: demo_world_def)
  have l: "py_lower ''no'' \<noteq> ''yes''"
    by (simp add: py_lower_def lower_char_def)
  from main_declined [OF r l, of "start empty_db"] show ?thesis
    using r l by (simp add: start_def)
qed

section \<open>Credential derivation and the seed users\<close>

text \<open>
  C2. \<^verbatim>\<open>hash_password\<close> calls \<^verbatim>\<open>hashlib.pbkdf2_hex\<close>, a name the module does not define:
  for every password the call raises \<^verbatim>\<open>AttributeError\<close>, with the message that the module
  has no such attribute, and no hash is produced.
\<close>

theorem hash_password_raises:
  "hash_password w passwd =
     Raise (AttributeError (no_module_attribute ''hashlib'' ''pbkdf2_hex''))"
  by (simp add: hash_password_def hashlib_names_def)

text \<open>
  The data of the seed steps: three users, one of each role; twenty-four steps, 2, 6,
  10, 3 and 3 of them in the five categories; ten badges.
\<close>

lemma seed_data_sizes:
  "map u_role users_data = [''mentor'', ''mentee'', ''admin''] \<and>
   length progression_data = 24 \<and>
   map (\<lambda>c. length (filter (\<lambda>(code, title, description, category, min_jumps). category = c)
          progression_data))
     [''2way'', ''3way'', ''4way'', ''canopy'', ''safety''] = [2, 6, 10, 3, 3] \<and>
   length badges_data = 10"
  by (simp add: users_data_def progression_data_def badges_data_def)

text \<open>
  C4. \<^verbatim>\<open>seed_users\<close> stops in its first round: after the starting line is printed and
  one identifier is drawn, hashing the password raises \<^verbatim>\<open>AttributeError\<close>, before any
  \<^verbatim>\<open>INSERT\<close> is sent. The database is as it was, with no user row added.
\<close>

theorem seed_users_raises:
  "seed_users w s =
     (Raise (AttributeError (no_module_attribute ''hashlib'' ''pbkdf2_hex'')),
      s\<lparr>out := out s @ [''Creating seed users...''], drawn := drawn s + 1\<rparr>)"
  by (simp add: seed_users_def users_data_def seq_def bind_def py_print_def uuid_str_def
      lift_def hash_password_def hashlib_names_def)

section \<open>Missing configuration\<close>

text \<open>
  C5, as the claim states it, fails, in two ways. \<^verbatim>\<open>__init__\<close> converts \<^verbatim>\<open>PGPORT\<close> with
  \<^verbatim>\<open>int()\<close> before it looks at the required variables: with \<^verbatim>\<open>PGPORT=abc\<close> and \<^verbatim>\<open>PGUSER\<close>
  unset the run ends with \<^verbatim>\<open>ValueError\<close> and has printed nothing, so no diagnostic names
  \<^verbatim>\<open>PGUSER\<close>. And with \<^verbatim>\<open>--drop-existing\<close> the confirmation comes before \<^verbatim>\<open>__init__\<close>: with
  \<^verbatim>\<open>PGUSER\<close> unset and the answer \<^verbatim>\<open>no\<close> the run returns with exit code 0, and the two
  lines it has printed name no variable.
\<close>

theorem main_bad_port_counterexample:
  "unset_var bad_port_world ''PGUSER'' \<and>
   main bad_port_world False (start empty_db) =
     (Raise (ValueError bad_port_message), start empty_db) \<and>
   out (snd (main bad_port_world False (start empty_db))) = [] \<and>
   unset_var no_user_world ''PGUSER'' \<and>
   main no_user_world True (start empty_db) =
     (Ret (), (start empty_db)\<lparr>out := [prompt, ''Setup cancelled.'']\<rparr>) \<and>
   exit_code (fst (main no_user_world True (start empty_db))) = 0"
  by (simp add: bad_port_world_def no_user_world_def demo_world_def unset_var_def main_def
      seq_def bind_def init_def input_def py_print_def py_lower_def lower_char_def exit_code_def
      start_def)

lemma init_missing:
  assumes "port_ok w" and "missing_vars w \<noteq> []"
  shows "\<exists>p. init w s = (Raise (SystemExit 1), s\<lparr>connection_params := Some p,
     out := out s @ [''Error: Missing required environment variables: '' @ join '', '' (missing_vars w),
       ''Please set these in your .env file or environment.'']\<rparr>)"
  using assms
  by (auto simp: port_ok_def init_def seq_def bind_def py_print_def sys_exit_def raise_def Let_def
      split: option.splits sum.splits)

lemma missing_vars_iff:
  "missing_vars w \<noteq> [] \<longleftrightarrow>
     unset_var w ''PGDATABASE'' \<or> unset_var w ''PGUSER'' \<or> unset_var w ''PGPASSWORD''"
  by (simp add: missing_vars_def required_vars_def)

text \<open>
  C5, amended. If \<^verbatim>\<open>PGPORT\<close> is unset or holds a text that \<^verbatim>\<open>int()\<close> accepts, and, when
  \<^verbatim>\<open>--drop-existing\<close> is given, the operator has answered \<^verbatim>\<open>yes\<close> (in any letter case) at
  the confirmation prompt, then with any of \<^verbatim>\<open>PGDATABASE\<close>, \<^verbatim>\<open>PGUSER\<close>, \<^verbatim>\<open>PGPASSWORD\<close> unset
  or empty, \<^verbatim>\<open>main\<close> ends with \<^verbatim>\<open>sys.exit(1)\<close>; no connection was attempted and no
  statement sent; and the diagnostic it prints lists exactly the variables that are
  missing, separated by commas.
\<close>

theorem main_missing_vars:
  assumes port: "port_ok w"
    and confirmed: "drop_existing \<longrightarrow> answered_yes w"
    and missing: "unset_var w ''PGDATABASE'' \<or> unset_var w ''PGUSER'' \<or> unset_var w ''PGPASSWORD''"
  shows "fst (main w drop_existing s) = Raise (SystemExit 1) \<and>
         exit_code (fst (main w drop_existing s)) = 1 \<and>
         attempts (snd (main w drop_existing s)) = attempts s \<and>
         sent (snd (main w drop_existing s)) = sent s \<and>
         db (snd (main w drop_existing s)) = db s \<and>
         out (snd (main w drop_existing s)) =
           out s @ (if drop_existing then [prompt] else []) @
           [''Error: Missing required environment variables: '' @ join '', '' (missing_vars w),
            ''Please set these in your .env file or environment.''] \<and>
         set (missing_vars w) = {v \<in> set required_vars. unset_var w v}"
proof -
  have m: "missing_vars w \<noteq> []"
    using missing by (simp add: missing_vars_iff)
  have i: "\<exists>p. init w t = (Raise (SystemExit 1), t\<lparr>connection_params := Some p,
     out := out t @ [''Error: Missing required environment variables: '' @ join '', '' (missing_vars w),
       ''Please set these in your .env file or environment.'']\<rparr>)" for t
    using init_missing [OF port m] .
  have names: "set (missing_vars w) = {v \<in> set required_vars. unset_var w v}"
    by (auto simp: missing_vars_def)
  show ?thesis
  proof (cases drop_existing)
    case False
    from i [of s] obtain p where "init w s = (Raise (SystemExit 1), s\<lparr>connection_params := Some p,
     out := out s @ [''Error: Missing required environment variables: '' @ join '', '' (missing_vars w),
       ''Please set these in your .env file or environment.'']\<rparr>)" by blast
    with False names show ?thesis
      by (simp add: main_def seq_def bind_def exit_code_def)
  next
    case True
    with confirmed obtain c where c: "reply w = Some c" "py_lower c = ''yes''"
      by (auto simp: answered_yes_def split: option.splits)
    from i [of "s\<lparr>out := out s @ [prompt]\<rparr>"] obtain p where
      "init w (s\<lparr>out := out s @ [prompt]\<rparr>) = (Raise (SystemExit 1), s\<lparr>out := out s @ [prompt]\<rparr>\<lparr>connection_params := Some p,
        out := out (s\<lparr>out := out s @ [prompt]\<rparr>) @ [''Error: Missing required environment variables: '' @ join '', '' (missing_vars w),
       ''Please set these in your .env file or environment.'']\<rparr>)" by blast
    with True c names show ?thesis
      by (simp add: main_def input_def seq_def bind_def py_print_def exit_code_def)
  qed
qed

theorem main_missing_vars_witness:
  "port_ok confirming_world \<and> answered_yes confirming_world \<and>
   unset_var confirming_world ''PGUSER'' \<and>
   fst (main confirming_world True (start empty_db)) = Raise (SystemExit 1) \<and>
   attempts (snd (main confirming_world True (start empty_db))) = 0 \<and>
   out (snd (main confirming_world True (start empty_db))) =
     [prompt, ''Error: Missing required environment variables: PGUSER'',
      ''Please set these in your .env file or environment.'']"
proof -
  have p: "port_ok confirming_world"
    by (simp add: port_ok_def confirming_world_def no_user_world_def demo_world_def)
  have u: "unset_var confirming_world ''PGUSER''"
    by (simp add: unset_var_def confirming_world_def no_user_world_def demo_world_def)
  have y: "answered_yes confirming_world"
    by (simp add: answered_yes_def confirming_world_def py_lower_def lower_char_def)
  have c: "True \<longrightarrow> answered_yes confirming_world"
    using y by simp
  have mv: "missing_vars confirming_world = [''PGUSER'']"
    by (simp add: missing_vars_def required_vars_def unset_var_def confirming_world_def
        no_user_world_def demo_world_def)
  from main_missing_vars [OF p c, of "start empty_db"] u mv p y show ?thesis
    by (simp add: start_def)
qed

section \<open>The schema reset\<close>

text \<open>
  On an open connection, \<^verbatim>\<open>DROP TABLE IF EXISTS t CASCADE\<close> is accepted when \<open>t\<close> is not
  the name of an index, and \<^verbatim>\<open>DROP TYPE IF EXISTS e CASCADE\<close> when \<open>e\<close> is not the name of
  a table. Dropping makes no index and no table, so the two loops of
  \<^verbatim>\<open>drop_existing_schema\<close> run to their ends on a database where the names are free in
  this sense, and the database they leave is one again.
\<close>

lemma execute_drop_table:
  "ready s \<Longrightarrow> indexes (db s) t = None \<Longrightarrow> execute (DropTable t) s =
     (Ret (), s\<lparr>db := drop_table t (db s), results := [], sent := sent s @ [DropTable t]\<rparr>)"
  by (simp add: ready_def execute_def dom_def)

lemma execute_drop_type:
  "ready s \<Longrightarrow> tables (db s) e = None \<Longrightarrow> execute (DropType e) s =
     (Ret (), s\<lparr>db := drop_type e (db s), results := [], sent := sent s @ [DropType e]\<rparr>)"
  by (simp add: ready_def execute_def dom_def)

lemma indexes_drop_table_keep: "indexes d n = None \<Longrightarrow> indexes (drop_table t d) n = None"
  by (simp add: drop_table_def)

lemma indexes_fold_drop_table_keep:
  "indexes d n = None \<Longrightarrow> indexes (fold drop_table ts d) n = None"
  by (induction ts arbitrary: d) (simp_all add: indexes_drop_table_keep)

lemma indexes_fold_drop_type_keep:
  "indexes d n = None \<Longrightarrow> indexes (fold drop_type es d) n = None"
  by (induction es arbitrary: d) (simp_all add: drop_type_def)

lemma tables_drop_table_None: "n = t \<or> tables d n = None \<Longrightarrow> tables (drop_table t d) n = None"
  by (auto simp: drop_table_def)

lemma tables_fold_drop_table_keep:
  "tables d n = None \<Longrightarrow> tables (fold drop_table ts d) n = None"
  by (induction ts arbitrary: d) (simp_all add: tables_drop_table_None)

lemma tables_fold_drop_table:
  "n \<in> set ts \<Longrightarrow> tables (fold drop_table ts d) n = None"
  by (induction ts arbitrary: d) (auto simp: tables_drop_table_None tables_fold_drop_table_keep)

lemma tables_drop_type_keep: "tables d n = None \<Longrightarrow> tables (drop_type e d) n = None"
  by (simp add: drop_type_def)

lemma tables_fold_drop_type_keep:
  "tables d n = None \<Longrightarrow> tables (fold drop_type es d) n = None"
  by (induction es arbitrary: d) (simp_all add: drop_type_def)

lemma types_fold_drop_type_keep:
  "types d n = None \<Longrightarrow> types (fold drop_type es d) n = None"
  by (induction es arbitrary: d) (simp_all add: drop_type_def)

lemma types_fold_drop_type:
  "n \<in> set es \<Longrightarrow> types (fold drop_type es d) n = None"
  by (induction es arbitrary: d) (auto simp: drop_type_def types_fold_drop_type_keep)

lemma for_each_drop_table:
  "ready s \<Longrightarrow> list_all (\<lambda>t. indexes (db s) t = None) ts \<Longrightarrow>
   \<exists>s'. for_each (\<lambda>t. execute (DropTable t)) ts s = (Ret (), s') \<and> ready s' \<and>
     db s' = fold drop_table ts (db s) \<and> sent s' = sent s @ map DropTable ts \<and> out s' = out s"
proof (induction ts arbitrary: s)
  case Nil
  then show ?case by simp
next
  case (Cons t ts)
  let ?s1 = "s\<lparr>db := drop_table t (db s), results := [], sent := sent s @ [DropTable t]\<rparr>"
  have r1: "ready ?s1" using Cons.prems by (simp add: ready_def)
  have t: "indexes (db s) t = None" using Cons.prems by simp
  have "list_all (\<lambda>t. indexes (db s) t = None) ts" using Cons.prems by simp
  then have i1: "list_all (\<lambda>t. indexes (db ?s1) t = None) ts"
    by (simp add: list_all_iff indexes_drop_table_keep)
  from Cons.IH [OF r1 i1] obtain s' where
    "for_each (\<lambda>t. execute (DropTable t)) ts ?s1 = (Ret (), s')" "ready s'"
    "db s' = fold drop_table ts (db ?s1)" "sent s' = sent ?s1 @ map DropTable ts" "out s' = out ?s1"
    by blast
  then show ?case
    using Cons.prems(1) t by (simp add: execute_drop_table)
qed

lemma for_each_drop_type:
  "ready s \<Longrightarrow> list_all (\<lambda>e. tables (db s) e = None) es \<Longrightarrow>
   \<exists>s'. for_each (\<lambda>e. execute (DropType e)) es s = (Ret (), s') \<and> ready s' \<and>
     db s' = fold drop_type es (db s) \<and> sent s' = sent s @ map DropType es \<and> out s' = out s"
proof (induction es arbitrary: s)
  case Nil
  then show ?case by simp
next
  case (Cons e es)
  let ?s1 = "s\<lparr>db := drop_type e (db s), results := [], sent := sent s @ [DropType e]\<rparr>"
  have r1: "ready ?s1" using Cons.prems by (simp add: ready_def)
  have e: "tables (db s) e = None" using Cons.prems by simp
  have "list_all (\<lambda>e. tables (db s) e = None) es" using Cons.prems by simp
  then have i1: "list_all (\<lambda>x. tables (db ?s1) x = None) es"
    by (simp add: list_all_iff tables_drop_type_keep)
  from Cons.IH [OF r1 i1] obtain s' where
    "for_each (\<lambda>e. execute (DropType e)) es ?s1 = (Ret (), s')" "ready s'"
    "db s' = fold drop_type es (db ?s1)" "sent s' = sent ?s1 @ map DropType es" "out s' = out ?s1"
    by blast
  then show ?case
    using Cons.prems(1) e by (simp add: execute_drop_type)
qed

lemma drop_existing_schema_run:
  assumes "ready s" and "droppable (db s)"
  shows "\<exists>s'. drop_existing_schema s = (Ret (), s') \<and> ready s' \<and>
     db s' = fold drop_type enum_names (fold drop_table drop_order (db s)) \<and>
     sent s' = sent s @ map DropTable drop_order @ map DropType enum_names \<and>
     out s' = out s @ [warning_sign @ ''  Dropping existing schema...'',
                       check_mark @ '' Existing schema dropped'']"
proof -
  let ?s0 = "s\<lparr>out := out s @ [warning_sign @ ''  Dropping existing schema...'']\<rparr>"
  have r0: "ready ?s0" using assms(1) by (simp add: ready_def)
  have i0: "list_all (\<lambda>t. indexes (db ?s0) t = None) drop_order"
    using assms(2) by (simp add: droppable_def)
  from for_each_drop_table [OF r0 i0] obtain s1 where
    s1: "for_each (\<lambda>t. execute (DropTable t)) drop_order ?s0 = (Ret (), s1)" "ready s1"
    "db s1 = fold drop_table drop_order (db s)" "sent s1 = sent s @ map DropTable drop_order"
    "out s1 = out ?s0"
    by auto
  have "list_all (\<lambda>e. tables (db s) e = None) enum_names"
    using assms(2) by (simp add: droppable_def)
  then have t1: "list_all (\<lambda>e. tables (db s1) e = None) enum_names"
    by (simp add: list_all_iff s1(3) tables_fold_drop_table_keep)
  from for_each_drop_type [OF s1(2) t1] obtain s2 where
    s2: "for_each (\<lambda>e. execute (DropType e)) enum_names s1 = (Ret (), s2)" "ready s2"
    "db s2 = fold drop_type enum_names (db s1)" "sent s2 = sent s1 @ map DropType enum_names"
    "out s2 = out s1"
    by auto
  show ?thesis
    using s1 s2 by (simp add: drop_existing_schema_def seq_def bind_def py_print_def ready_def)
qed

lemma droppable_after:
  assumes "droppable d"
  shows "droppable (fold drop_type enum_names (fold drop_table drop_order d))"
proof -
  have i: "indexes (fold drop_type enum_names (fold drop_table drop_order d)) n = None"
    if "indexes d n = None" for n
    using that by (simp add: indexes_fold_drop_type_keep indexes_fold_drop_table_keep)
  have t: "tables (fold drop_type enum_names (fold drop_table drop_order d)) n = None"
    if "tables d n = None" for n
    using that by (simp add: tables_fold_drop_type_keep tables_fold_drop_table_keep)
  show ?thesis
    using assms i t unfolding droppable_def list_all_iff by blast
qed

lemma fk_edges_order: "list_all (\<lambda>(t, p). dropped_before t p) fk_edges"
  by (simp add: fk_edges_def table_defs_def dropped_before_def drop_order_def List.map_filter_def
    col_def not_null_def unique_def primary_key_def references_def with_default_def uuid_pk_def)

lemma schema_names: "set drop_order = set (map fst table_defs) \<and> distinct drop_order \<and> set enum_names = set (map fst enums)"
  by (simp add: drop_order_def table_defs_def enum_names_def enums_def) auto

text \<open>
  C6, as the claim states it, fails: the reset does not complete on every database. In
  a database that holds a table named \<^verbatim>\<open>category\<close>, the fourteen \<^verbatim>\<open>DROP TABLE\<close> statements and
  the first three \<^verbatim>\<open>DROP TYPE\<close> statements pass, and the server rejects
  \<^verbatim>\<open>DROP TYPE IF EXISTS category CASCADE\<close>: the name is the row type of the table, which
  cannot be dropped without it. The reset ends with the exception, the table is still
  there, and the closing line is not printed.
\<close>

theorem drop_existing_schema_counterexample:
  "fst (drop_existing_schema (connected category_db)) =
     Raise (Psycopg2Error DependentObjectsStillExist
       (''cannot drop type category because table category requires it'' @ newline @
        ''HINT:  You can drop table category instead.'' @ newline)) \<and>
   sent (snd (drop_existing_schema (connected category_db))) =
     map DropTable drop_order @ map DropType enum_names \<and>
   out (snd (drop_existing_schema (connected category_db))) =
     [warning_sign @ ''  Dropping existing schema...''] \<and>
   tables (db (snd (drop_existing_schema (connected category_db)))) ''category'' \<noteq> None"
  by (simp add: drop_existing_schema_def seq_def bind_def py_print_def execute_def
      drop_order_def enum_names_def drop_table_def drop_type_def connected_def start_def
      category_db_def empty_db_def pg_wording_def dom_def)

text \<open>
  C6, amended. On an open connection to a database in which none of the fourteen table
  names is the name of an index and none of the four type names is the name of a table,
  \<^verbatim>\<open>drop_existing_schema\<close> returns without an exception, and so does a second run right
  after it. It sends the fourteen \<^verbatim>\<open>DROP TABLE\<close> statements in the order of its list and
  then the four \<^verbatim>\<open>DROP TYPE\<close> statements; afterwards no table of \<^verbatim>\<open>create_tables\<close> and no
  enumerated type of \<^verbatim>\<open>create_enums\<close> exists. For every foreign key of the schema, the
  referencing table stands before the referenced one in the order of the drops.
\<close>

theorem drop_existing_schema_idempotent:
  assumes "cursor s = Opened" and "conn s = Opened" and "droppable (db s)"
  shows "\<exists>s' s''. drop_existing_schema s = (Ret (), s') \<and>
           drop_existing_schema s' = (Ret (), s'') \<and>
           sent s' = sent s @ map DropTable drop_order @ map DropType enum_names \<and>
           list_all (\<lambda>t. tables (db s') t = None \<and> tables (db s'') t = None) (map fst table_defs) \<and>
           list_all (\<lambda>e. types (db s') e = None \<and> types (db s'') e = None) (map fst enums) \<and>
           list_all (\<lambda>(t, p). dropped_before t p) fk_edges"
proof -
  have r: "ready s" using assms by (simp add: ready_def)
  from drop_existing_schema_run [OF r assms(3)] obtain s' where
    s': "drop_existing_schema s = (Ret (), s')" "ready s'"
    "db s' = fold drop_type enum_names (fold drop_table drop_order (db s))"
    "sent s' = sent s @ map DropTable drop_order @ map DropType enum_names"
    by blast
  have d': "droppable (db s')"
    unfolding s'(3) using assms(3) by (rule droppable_after)
  from drop_existing_schema_run [OF s'(2) d'] obtain s'' where
    s'': "drop_existing_schema s' = (Ret (), s'')"
    "db s'' = fold drop_type enum_names (fold drop_table drop_order (db s'))"
    by blast
  have gone: "tables (fold drop_type enum_names (fold drop_table drop_order d)) t = None"
    if "t \<in> set (map fst table_defs)" for t d
    using that schema_names by (simp add: tables_fold_drop_type_keep tables_fold_drop_table)
  have egone: "types (fold drop_type enum_names d) e = None"
    if "e \<in> set (map fst enums)" for e d
    using that schema_names by (simp add: types_fold_drop_type)
  have t: "list_all (\<lambda>t. tables (db s') t = None \<and> tables (db s'') t = None) (map fst table_defs)"
    unfolding list_all_iff using gone s'(3) s''(2) by simp
  have e: "list_all (\<lambda>e. types (db s') e = None \<and> types (db s'') e = None) (map fst enums)"
    unfolding list_all_iff using egone s'(3) s''(2) by simp
  show ?thesis
    using s'(1,4) s''(1) t e fk_edges_order by blast
qed

text \<open>
  A run on a database that holds the type \<^verbatim>\<open>role\<close>, the tables \<^verbatim>\<open>users\<close> and \<^verbatim>\<open>mentors\<close> with
  a row each, and an index on \<^verbatim>\<open>users\<close>: the reset removes them, and the second reset
  succeeds on what is left.
\<close>

theorem drop_existing_schema_idempotent_witness:
  "cursor (connected old_db) = Opened \<and> conn (connected old_db) = Opened \<and>
   droppable (db (connected old_db)) \<and>
   tables (db (connected old_db)) ''users'' \<noteq> None \<and>
   tables (db (connected old_db)) ''mentors'' \<noteq> None \<and>
   types (db (connected old_db)) ''role'' \<noteq> None \<and>
   (\<exists>s' s''. drop_existing_schema (connected old_db) = (Ret (), s') \<and>
      drop_existing_schema s' = (Ret (), s'') \<and>
      tables (db s') ''users'' = None \<and> tables (db s') ''mentors'' = None \<and>
      types (db s') ''role'' = None \<and>
      tables (db s'') ''users'' = None \<and> types (db s'') ''role'' = None)"
proof -
  have c: "cursor (connected old_db) = Opened" and o: "conn (connected old_db) = Opened"
    by (simp_all add: connected_def)
  have d: "droppable (db (connected old_db))"
    by (simp add: droppable_def connected_def start_def old_db_def drop_order_def enum_names_def)
  have b: "tables (db (connected old_db)) ''users'' \<noteq> None \<and>
           tables (db (connected old_db)) ''mentors'' \<noteq> None \<and>
           types (db (connected old_db)) ''role'' \<noteq> None"
    by (simp add: connected_def start_def old_db_def)
  from drop_existing_schema_idempotent [OF c o d] obtain s' s'' where
    h: "drop_existing_schema (connected old_db) = (Ret (), s')"
    "drop_existing_schema s' = (Ret (), s'')"
    "list_all (\<lambda>t. tables (db s') t = None \<and> tables (db s'') t = None) (map fst table_defs)"
    "list_all (\<lambda>e. types (db s') e = None \<and> types (db s'') e = None) (map fst enums)"
    by blast
  from h(3) have "tables (db s') ''users'' = None \<and> tables (db s') ''mentors'' = None \<and>
      tables (db s'') ''users'' = None"
    by (simp add: table_defs_def)
  moreover from h(4) have "types (db s') ''role'' = None \<and> types (db s'') ''role'' = None"
    by (simp add: enums_def)
  ultimately show ?thesis
    using c o d b h(1,2) by blast
qed

section \<open>Schema creation\<close>

text \<open>
  Facts about the loops: a loop over a list that is two lists joined, a property every
  round keeps, and the statements a loop of \<^verbatim>\<open>execute\<close> calls sends (a first part of
  its list: it stops at the first statement the server rejects).
\<close>

lemma for_each_append:
  "for_each f (xs @ ys) s =
     (case for_each f xs s of (Ret u, s') \<Rightarrow> for_each f ys s' | (Raise e, s') \<Rightarrow> (Raise e, s'))"
  by (induction xs arbitrary: s) (auto split: prod.splits res.splits)

lemma for_each_preserves:
  assumes "\<And>x t. x \<in> set xs \<Longrightarrow> P t \<Longrightarrow> P (snd (f x t))" and "P s"
  shows "P (snd (for_each f xs s))"
  using assms
proof (induction xs arbitrary: s)
  case Nil
  then show ?case by simp
next
  case (Cons x xs)
  have px: "P (snd (f x s))" using Cons.prems by simp
  show ?case
  proof (cases "f x s")
    case (Pair r s1)
    with px have p1: "P s1" by simp
    show ?thesis
    proof (cases r)
      case (Ret u)
      have "P (snd (for_each f xs s1))"
        using Cons.IH [of s1] Cons.prems(1) p1 by simp
      with Pair Ret show ?thesis by simp
    next
      case (Raise e)
      with Pair p1 show ?thesis by simp
    qed
  qed
qed

lemma execute_sent:
  "sent (snd (execute st s)) = sent s \<or> sent (snd (execute st s)) = sent s @ [st]"
  by (cases "cursor s") (auto simp: execute_def split: sum.splits prod.splits)



lemma execute_tables_other:
  "tables (db s) n = T \<Longrightarrow> n \<noteq> t \<Longrightarrow> tables (db (snd (execute (CreateTable t cols) s))) n = T"
  by (auto simp: execute_def create_table_def split: if_splits sum.splits prod.splits)

lemma execute_create_type_tables:
  "tables (db (snd (execute (CreateType e ls) s))) = tables (db s)"
  by (auto simp: execute_def create_type_def split: if_splits sum.splits prod.splits)

lemma execute_reserved:
  assumes "\<exists>c \<in> set cols. cname c \<in> set reserved_words"
  shows "fst (execute (CreateTable t cols) s) \<noteq> Ret () \<and>
         db (snd (execute (CreateTable t cols) s)) = db s"
  using assms by (auto simp: execute_def create_table_def split: if_splits sum.splits prod.splits)






section \<open>The tables after reset and creation\<close>

text \<open>
  The ninth statement of \<^verbatim>\<open>create_tables\<close> defines a column named \<^verbatim>\<open>references\<close>, a
  reserved word: the server rejects it, whatever the database holds, and the statements
  after it are never sent.
\<close>

lemma create_enums_tables:
  "tables (db (snd (create_enums s))) = tables (db s)"
proof -
  let ?f = "\<lambda>(enum_name, values). execute (CreateType enum_name values)"
  let ?s0 = "s\<lparr>out := out s @ [''Creating enums...'']\<rparr>"
  obtain r1 s1 where fe: "for_each ?f enums ?s0 = (r1, s1)"
    by (cases "for_each ?f enums ?s0")
  have "tables (db (snd (for_each ?f enums ?s0))) = tables (db s)"
    by (rule for_each_preserves [where P = "\<lambda>t. tables (db t) = tables (db s)"])
       (auto simp: execute_create_type_tables)
  with fe have "tables (db s1) = tables (db s)" by simp
  with fe show ?thesis
    by (cases r1) (simp_all add: create_enums_def seq_def bind_def py_print_def)
qed

lemma table_defs_split:
  "table_defs = take 8 table_defs @ (''progression_steps'', snd (table_defs ! 8)) # drop 9 table_defs \<and>
   (\<exists>c \<in> set (snd (table_defs ! 8)). cname c \<in> set reserved_words) \<and>
   map fst (take 8 table_defs) =
     [''users'', ''mentors'', ''mentees'', ''availability'', ''session_blocks'',
      ''attendance_requests'', ''preferences'', ''assignments'']"
  by (simp add: table_defs_def reserved_words_def col_def)

lemma create_tables_stops:
  "fst (create_tables s) \<noteq> Ret () \<and>
   (n \<notin> set [''users'', ''mentors'', ''mentees'', ''availability'', ''session_blocks'',
       ''attendance_requests'', ''preferences'', ''assignments''] \<longrightarrow>
    tables (db (snd (create_tables s))) n = tables (db s) n)"
proof -
  let ?f = "\<lambda>(t, cols). execute (CreateTable t cols)"
  let ?s0 = "s\<lparr>out := out s @ [''Creating tables...'']\<rparr>"
  define xs where "xs = take 8 table_defs"
  define cols where "cols = snd (table_defs ! 8)"
  define ys where "ys = drop 9 table_defs"
  have sp: "table_defs = xs @ (''progression_steps'', cols) # ys"
    and rw: "\<exists>c \<in> set cols. cname c \<in> set reserved_words"
    and nm: "map fst xs = [''users'', ''mentors'', ''mentees'', ''availability'', ''session_blocks'',
       ''attendance_requests'', ''preferences'', ''assignments'']"
    using table_defs_split unfolding xs_def cols_def ys_def by simp_all
  obtain r1 s1 where fx: "for_each ?f xs ?s0 = (r1, s1)" by (cases "for_each ?f xs ?s0")
  have keep: "tables (db s1) n = tables (db s) n" if "n \<notin> set (map fst xs)"
  proof -
    have "tables (db (snd (for_each ?f xs ?s0))) n = tables (db s) n"
    proof (rule for_each_preserves [where P = "\<lambda>t. tables (db t) n = tables (db s) n"])
      fix x and t :: state
      assume x: "x \<in> set xs" and t: "tables (db t) n = tables (db s) n"
      obtain a b where ab: "x = (a, b)" by (cases x)
      with x that have "n \<noteq> a" by force
      from execute_tables_other [OF t this, of b] ab
      show "tables (db (snd (?f x t))) n = tables (db s) n" by simp
    qed simp
    with fx show ?thesis by simp
  qed
  obtain r2 s2 where fa: "for_each ?f table_defs ?s0 = (r2, s2)" by (cases "for_each ?f table_defs ?s0")
  have fa': "(case for_each ?f xs ?s0 of
                (Ret u, s') \<Rightarrow> for_each ?f ((''progression_steps'', cols) # ys) s'
              | (Raise e, s') \<Rightarrow> (Raise e, s')) = (r2, s2)"
    using fa unfolding sp for_each_append .
  have res: "r2 \<noteq> Ret () \<and> db s2 = db s1"
  proof (cases r1)
    case (Raise e)
    with fx fa' show ?thesis by auto
  next
    case (Ret u)
    obtain r3 s3 where ex: "execute (CreateTable ''progression_steps'' cols) s1 = (r3, s3)"
      by (cases "execute (CreateTable ''progression_steps'' cols) s1")
    from execute_reserved [OF rw, of "''progression_steps''" s1] ex
    have r3: "r3 \<noteq> Ret ()" and d3: "db s3 = db s1" by simp_all
    from r3 obtain e where "r3 = Raise e" by (cases r3) simp_all
    with Ret fx fa' ex d3 show ?thesis by auto
  qed
  have ct: "create_tables s = (r2, s2)"
    using fa res by (cases r2) (simp_all add: create_tables_def seq_def bind_def py_print_def)
  show ?thesis
    using ct res keep nm by simp
qed

text \<open>
  C1. On an open connection and for every state of the database, the reset followed by
  \<^verbatim>\<open>create_enums\<close> and \<^verbatim>\<open>create_tables\<close> does not return: it ends with an exception. When
  the server accepts every statement of the reset (none of its table names is an index,
  none of its type names a table), the tables \<^verbatim>\<open>progression_steps\<close>, \<^verbatim>\<open>step_completions\<close>,
  \<^verbatim>\<open>badges\<close>, \<^verbatim>\<open>awards\<close>, \<^verbatim>\<open>jump_logs\<close> and \<^verbatim>\<open>audit_events\<close> do not exist afterwards. The
  statement that creates \<^verbatim>\<open>progression_steps\<close> is a syntax error, whatever the database
  holds.
\<close>

theorem reset_then_create_fails:
  assumes "cursor s = Opened" and "conn s = Opened"
  shows "fst (reset_then_create s) \<noteq> Ret () \<and>
         (droppable (db s) \<longrightarrow>
          list_all (\<lambda>t. tables (db (snd (reset_then_create s))) t = None)
            [''progression_steps'', ''step_completions'', ''badges'', ''awards'',
             ''jump_logs'', ''audit_events'']) \<and>
         fst (execute (table_stmts ! 8) s) =
           Raise (Psycopg2Error SyntaxError (wording (db s) (table_stmts ! 8) SyntaxError))"
proof -
  have r: "ready s" using assms by (simp add: ready_def)
  have syn: "fst (execute (table_stmts ! 8) s) =
      Raise (Psycopg2Error SyntaxError (wording (db s) (table_stmts ! 8) SyntaxError))"
    using assms
    by (simp add: table_stmts_def table_defs_def execute_def create_table_def reserved_words_def
        col_def)
  have fail: "fst (reset_then_create s) \<noteq> Ret ()"
  proof -
    obtain r1 s1 where d: "drop_existing_schema s = (r1, s1)"
      by (cases "drop_existing_schema s")
    obtain r2 s2 where ce: "create_enums s1 = (r2, s2)" by (cases "create_enums s1")
    show ?thesis
    proof (cases r1)
      case (Raise e)
      with d show ?thesis by (simp add: reset_then_create_def seq_def bind_def)
    next
      case r1: (Ret u)
      show ?thesis
      proof (cases r2)
        case (Raise e)
        with r1 d ce show ?thesis by (simp add: reset_then_create_def seq_def bind_def)
      next
        case (Ret v)
        with r1 d ce have "reset_then_create s = create_tables s2"
          by (simp add: reset_then_create_def seq_def bind_def)
        with create_tables_stops [of s2] show ?thesis by simp
      qed
    qed
  qed
  have absent: "list_all (\<lambda>t. tables (db (snd (reset_then_create s))) t = None)
            [''progression_steps'', ''step_completions'', ''badges'', ''awards'',
             ''jump_logs'', ''audit_events'']" if dr: "droppable (db s)"
  proof -
    from drop_existing_schema_run [OF r dr] obtain s1 where
      s1: "drop_existing_schema s = (Ret (), s1)"
      "db s1 = fold drop_type enum_names (fold drop_table drop_order (db s))"
      by blast
    have gone: "tables (db s1) t = None" if "t \<in> set drop_order" for t
      using that s1(2) by (simp add: tables_fold_drop_type_keep tables_fold_drop_table)
    have none1: "list_all (\<lambda>t. tables (db s1) t = None)
             [''progression_steps'', ''step_completions'', ''badges'', ''awards'',
              ''jump_logs'', ''audit_events'']"
      by (simp add: gone drop_order_def)
    obtain r2 s2 where ce: "create_enums s1 = (r2, s2)" by (cases "create_enums s1")
    have t2: "tables (db s2) = tables (db s1)"
      using create_enums_tables [of s1] ce by simp
    show ?thesis
    proof (cases r2)
      case (Raise e)
      with s1(1) ce t2 none1 show ?thesis
        by (simp add: reset_then_create_def seq_def bind_def)
    next
      case (Ret u)
      with s1(1) ce have eq: "reset_then_create s = create_tables s2"
        by (simp add: reset_then_create_def seq_def bind_def)
      from create_tables_stops [of s2] t2 none1 show ?thesis
        unfolding eq by simp
    qed
  qed
  show ?thesis
    using fail absent syn by simp
qed

theorem reset_then_create_fails_witness:
  "cursor (connected old_db) = Opened \<and> conn (connected old_db) = Opened \<and>
   droppable (db (connected old_db)) \<and>
   fst (reset_then_create (connected old_db)) \<noteq> Ret () \<and>
   tables (db (snd (reset_then_create (connected old_db)))) ''progression_steps'' = None \<and>
   tables (db (snd (reset_then_create (connected old_db)))) ''audit_events'' = None"
proof -
  have c: "cursor (connected old_db) = Opened" and o: "conn (connected old_db) = Opened"
    by (simp_all add: connected_def)
  have d: "droppable (db (connected old_db))"
    by (simp add: droppable_def connected_def start_def old_db_def drop_order_def enum_names_def)
  from reset_then_create_fails [OF c o] show ?thesis
    using c o d by simp
qed

section \<open>Failure and cleanup in \<^verbatim>\<open>run_setup\<close>\<close>







section \<open>Verification\<close>

text \<open>
  Steps that only read, and how they compose.
\<close>

lemma read_only_print: "read_only (py_print l)"
  by (simp add: read_only_def py_print_def)

lemma read_only_raise: "read_only (raise e)"
  by (simp add: read_only_def raise_def)

lemma read_only_return: "read_only (\<lambda>s. (Ret v, s))"
  by (simp add: read_only_def)

lemma read_only_fetchone: "read_only fetchone"
  by (simp add: read_only_def fetchone_def split: list.splits)

lemma read_only_fetchall: "read_only fetchall"
  by (simp add: read_only_def fetchall_def)

lemma read_only_getitem: "read_only (getitem r k)"
  by (simp add: getitem_def read_only_raise read_only_return split: option.splits key.splits)

lemma exec_select_db:
  "is_select st \<Longrightarrow> exec st d = Inr (d', rs) \<Longrightarrow> d' = d"
  by (cases st) (auto simp: map_sum_def split: sum.splits)

lemma read_only_execute:
  assumes "is_select st"
  shows "read_only (execute st)"
  unfolding read_only_def
proof (intro allI conjI)
  fix s
  show "db (snd (execute st s)) = db s"
    using assms exec_select_db [of st "db s"]
    by (auto simp: execute_def split: sum.splits prod.splits)
  from execute_sent [of st s]
  have "sent (snd (execute st s)) = sent s @ [] \<or> sent (snd (execute st s)) = sent s @ [st]"
    by simp
  moreover have "list_all is_select []" and "list_all is_select [st]"
    using assms by simp_all
  ultimately show "\<exists>l. sent (snd (execute st s)) = sent s @ l \<and> list_all is_select l"
    by blast
qed

lemma read_only_bind:
  assumes "read_only m" and "\<And>a. read_only (f a)"
  shows "read_only (bind m f)"
  unfolding read_only_def
proof
  fix s
  obtain r s1 where m: "m s = (r, s1)" by (cases "m s")
  from assms(1) m obtain l1 where
    l1: "db s1 = db s" "sent s1 = sent s @ l1" "list_all is_select l1"
    unfolding read_only_def by (metis snd_conv)
  show "db (snd (bind m f s)) = db s \<and>
        (\<exists>l. sent (snd (bind m f s)) = sent s @ l \<and> list_all is_select l)"
  proof (cases r)
    case (Raise e)
    with m l1 show ?thesis by (auto simp: bind_def)
  next
    case (Ret a)
    from assms(2) [of a] obtain l2 where
      "db (snd (f a s1)) = db s1" "sent (snd (f a s1)) = sent s1 @ l2" "list_all is_select l2"
      unfolding read_only_def by metis
    with Ret m l1 have "db (snd (bind m f s)) = db s \<and>
        sent (snd (bind m f s)) = sent s @ (l1 @ l2) \<and> list_all is_select (l1 @ l2)"
      by (simp add: bind_def)
    then show ?thesis by blast
  qed
qed

lemma read_only_seq:
  "read_only m \<Longrightarrow> read_only k \<Longrightarrow> read_only (seq m k)"
  by (simp add: seq_def read_only_bind)

lemma read_only_for_each:
  assumes "\<And>x. read_only (f x)"
  shows "read_only (for_each f xs)"
proof (induction xs)
  case Nil
  have "for_each f [] = (\<lambda>s. (Ret (), s))" by (simp add: fun_eq_iff)
  then show ?case by (simp add: read_only_return)
next
  case (Cons x xs)
  have "for_each f (x # xs) = seq (f x) (for_each f xs)"
    by (auto simp: fun_eq_iff seq_def bind_def split: prod.splits res.splits)
  with Cons assms show ?case by (simp add: read_only_seq)
qed

lemma read_only_verify_setup: "read_only verify_setup"
  unfolding verify_setup_def verify_counts_def verify_breakdown_def
  by (intro read_only_seq read_only_bind read_only_for_each read_only_print read_only_execute
      read_only_fetchone read_only_fetchall read_only_getitem) simp_all

text \<open>
  The first round of the first loop of \<^verbatim>\<open>verify_setup\<close>, which asks for the count of
  \<^verbatim>\<open>users\<close>. If the statement is refused, the round ends with that exception. If it is
  answered, the answer is one row, a dictionary with the key \<^verbatim>\<open>count\<close>, and the
  subscript \<^verbatim>\<open>[0]\<close> raises \<^verbatim>\<open>KeyError\<close>. Either way the round prints nothing.
\<close>

lemma count_users_raises:
  "\<exists>e t. seq (execute (SelectCount ''users''))
            (bind fetchone (\<lambda>r.
             bind (getitem r (IntKey 0)) (\<lambda>count.
              py_print (''  '' @ ''users'' @ '': '' @ show_val count @ '' records'')))) s =
            (Raise e, t) \<and> out t = out s"
  by (cases "cursor s")
     (auto simp: seq_def bind_def execute_def select_count_def fetchone_def getitem_def raise_def
           split: sum.splits option.splits prod.splits)

lemma verify_counts_raises:
  "\<exists>e t. verify_counts s = (Raise e, t) \<and> out t = out s"
proof -
  from count_users_raises [of s] obtain e t where
    "seq (execute (SelectCount ''users''))
       (bind fetchone (\<lambda>r.
        bind (getitem r (IntKey 0)) (\<lambda>count.
         py_print (''  '' @ ''users'' @ '': '' @ show_val count @ '' records'')))) s =
       (Raise e, t)" "out t = out s"
    by blast
  then have "verify_counts s = (Raise e, t) \<and> out t = out s"
    by (simp add: verify_counts_def verify_tables_def)
  then show ?thesis by blast
qed

lemma verify_setup_key_error:
  assumes "ready s" and "tables (db s) ''users'' = Some tb"
  shows "fst (verify_setup s) = Raise (KeyError ''0'') \<and>
         sent (snd (verify_setup s)) = sent s @ [SelectCount ''users'']"
  using assms
  by (simp add: verify_setup_def verify_counts_def verify_tables_def seq_def bind_def py_print_def
      execute_def ready_def select_count_def fetchone_def getitem_def raise_def
      show_int_def digit_char_def)

text \<open>
  C3. \<^verbatim>\<open>verify_setup\<close> reports no row count. For every state it ends with an exception,
  and the only line it has printed is its heading: no count of a table and no count of
  a category. On an open connection to a database that has the table \<^verbatim>\<open>users\<close>, the
  exception is the \<^verbatim>\<open>KeyError\<close> of \<^verbatim>\<open>fetchone()[0]\<close>, and the count of \<^verbatim>\<open>users\<close> is the only
  statement sent: the other tables and the categories are never queried. The part of
  the claim about reading holds: the database is left as it was, and every statement
  sent is a \<^verbatim>\<open>SELECT\<close>.
\<close>

theorem verify_setup_raises:
  "(\<exists>e. fst (verify_setup s) = Raise e) \<and>
   out (snd (verify_setup s)) = out s @ [''Verifying database setup...''] \<and>
   db (snd (verify_setup s)) = db s \<and>
   (\<exists>l. sent (snd (verify_setup s)) = sent s @ l \<and> list_all is_select l) \<and>
   (\<forall>tb. cursor s = Opened \<and> conn s = Opened \<and> tables (db s) ''users'' = Some tb \<longrightarrow>
      fst (verify_setup s) = Raise (KeyError ''0'') \<and>
      sent (snd (verify_setup s)) = sent s @ [SelectCount ''users''])"
proof -
  let ?s0 = "s\<lparr>out := out s @ [''Verifying database setup...'']\<rparr>"
  from verify_counts_raises [of ?s0] obtain e t where
    vc: "verify_counts ?s0 = (Raise e, t)" "out t = out ?s0"
    by blast
  then have vs: "verify_setup s = (Raise e, t)"
    by (simp add: verify_setup_def seq_def bind_def py_print_def)
  have a: "\<exists>e. fst (verify_setup s) = Raise e"
    using vs by simp
  have b: "out (snd (verify_setup s)) = out s @ [''Verifying database setup...'']"
    using vs vc(2) by simp
  from read_only_verify_setup
  have c: "db (snd (verify_setup s)) = db s"
    and d: "\<exists>l. sent (snd (verify_setup s)) = sent s @ l \<and> list_all is_select l"
    unfolding read_only_def by simp_all
  have k: "fst (verify_setup s) = Raise (KeyError ''0'') \<and>
      sent (snd (verify_setup s)) = sent s @ [SelectCount ''users'']"
    if "cursor s = Opened \<and> conn s = Opened \<and> tables (db s) ''users'' = Some tb" for tb
  proof -
    from that have "ready s" by (simp add: ready_def)
    from verify_setup_key_error [OF this] that show ?thesis by simp
  qed
  show ?thesis
    using a b c d k by blast
qed

text \<open>
  A run on a database that has the table \<^verbatim>\<open>users\<close> with one row: the count is asked for
  and never printed.
\<close>

theorem verify_setup_raises_witness:
  "cursor (connected old_db) = Opened \<and> conn (connected old_db) = Opened \<and>
   tables (db (connected old_db)) ''users'' \<noteq> None \<and>
   fst (verify_setup (connected old_db)) = Raise (KeyError ''0'') \<and>
   sent (snd (verify_setup (connected old_db))) = [SelectCount ''users''] \<and>
   out (snd (verify_setup (connected old_db))) = [''Verifying database setup...''] \<and>
   db (snd (verify_setup (connected old_db))) = old_db"
proof -
  have h: "cursor (connected old_db) = Opened \<and> conn (connected old_db) = Opened"
    by (simp add: connected_def)
  obtain tb where u: "tables (db (connected old_db)) ''users'' = Some tb"
    by (simp add: connected_def start_def old_db_def)
  have i: "sent (connected old_db) = [] \<and> out (connected old_db) = [] \<and>
           db (connected old_db) = old_db"
    by (simp add: connected_def start_def)
  from verify_setup_raises [of "connected old_db"] h u i show ?thesis
    by simp
qed

end
